theory Spec2Isabelle
  imports Complex_Main "HOL-Library.Word" "HOL-Library.Monad_Syntax"
begin

section \<open>Text, bytes and exceptions\<close>

text \<open>
  A Python \<^verbatim>\<open>str\<close> is a sequence of Unicode code points, a \<^verbatim>\<open>bytes\<close> object a sequence of
  octets. String literals of the source are written \<open>str ''...''\<close>.
\<close>

type_synonym pystr = "nat list"
type_synonym byte = "8 word"
type_synonym bytes = "byte list"

abbreviation str :: "string \<Rightarrow> pystr" where
  "str s \<equiv> map of_char s"

text \<open>
  Every exception the source handles is caught by \<^verbatim>\<open>except Exception\<close> and used only through
  \<^verbatim>\<open>str(e)\<close>, so an exception is represented by its message.
\<close>

datatype exn = Exn pystr

fun exn_str :: "exn \<Rightarrow> pystr" where
  "exn_str (Exn msg) = msg"

section \<open>The UTF-8 codec\<close>

text \<open>
  \<^verbatim>\<open>str.encode('utf-8', errors=...)\<close> and \<^verbatim>\<open>bytes.decode('utf-8', errors=...)\<close>. The codec
  walks the input; where it meets something it cannot convert it calls the error handler
  named by \<open>errors\<close>: \<^verbatim>\<open>strict\<close> raises, \<^verbatim>\<open>ignore\<close> drops the offending range and goes on,
  \<^verbatim>\<open>replace\<close> puts U+FFFD in its place and goes on. Both source files pass
  \<^verbatim>\<open>errors='ignore'\<close> in \<^verbatim>\<open>whois_query_server\<close>.
\<close>

datatype errors = Strict | Ignore | Replace

definition is_surrogate :: "nat \<Rightarrow> bool" where
  "is_surrogate cp = (0xD800 \<le> cp \<and> cp \<le> 0xDFFF)"

definition is_scalar :: "nat \<Rightarrow> bool" where
  "is_scalar cp = (cp < 0x110000 \<and> \<not> is_surrogate cp)"

text \<open>The bytes of one code point; \<open>None\<close> where the encoder calls its error handler.\<close>

definition utf8_encode_cp :: "nat \<Rightarrow> bytes option" where
  "utf8_encode_cp cp =
     (if cp < 0x80 then Some [of_nat cp]
      else if cp < 0x800 then Some [of_nat (0xC0 + cp div 64), of_nat (0x80 + cp mod 64)]
      else if cp < 0x10000 then
        (if is_surrogate cp then None
         else Some [of_nat (0xE0 + cp div 4096), of_nat (0x80 + cp div 64 mod 64),
                    of_nat (0x80 + cp mod 64)])
      else if cp < 0x110000 then
        Some [of_nat (0xF0 + cp div 262144), of_nat (0x80 + cp div 4096 mod 64),
              of_nat (0x80 + cp div 64 mod 64), of_nat (0x80 + cp mod 64)]
      else None)"

fun encode_utf8 :: "errors \<Rightarrow> pystr \<Rightarrow> exn + bytes" where
  "encode_utf8 h [] = Inr []"
| "encode_utf8 h (cp # s) =
     (case utf8_encode_cp cp of
        Some bs \<Rightarrow> (case encode_utf8 h s of Inl e \<Rightarrow> Inl e | Inr r \<Rightarrow> Inr (bs @ r))
      | None \<Rightarrow>
          (case h of
             Strict \<Rightarrow> Inl (Exn (str ''UnicodeEncodeError''))
           | Ignore \<Rightarrow> encode_utf8 h s
           | Replace \<Rightarrow> (case encode_utf8 h s of Inl e \<Rightarrow> Inl e | Inr r \<Rightarrow> Inr (0x3F # r))))"

definition is_cont :: "byte \<Rightarrow> bool" where
  "is_cont b = (0x80 \<le> unat b \<and> unat b \<le> 0xBF)"

text \<open>
  One step of the decoder at a non-empty input: the code point of the well-formed sequence
  that starts it, or \<open>None\<close> for an ill-formed one, and the number of bytes the step covers.
  An ill-formed range is the lead byte with the continuation bytes accepted before the
  offending byte or the end of the input (at least one byte).
\<close>

definition second_ok :: "nat \<Rightarrow> byte \<Rightarrow> bool" where
  "second_ok b0 b1 =
     (is_cont b1 \<and>
      (if b0 = 0xE0 then 0xA0 \<le> unat b1
       else if b0 = 0xED then unat b1 < 0xA0
       else if b0 = 0xF0 then 0x90 \<le> unat b1
       else if b0 = 0xF4 then unat b1 < 0x90
       else True))"

fun utf8_decode_step :: "byte \<Rightarrow> bytes \<Rightarrow> nat option \<times> nat" where
  "utf8_decode_step b bs =
     (let b0 = unat b in
      if b0 < 0x80 then (Some b0, 1)
      else if b0 < 0xC2 then (None, 1)
      else if b0 < 0xE0 then
        (case bs of
           b1 # _ \<Rightarrow>
             if is_cont b1 then (Some ((b0 - 0xC0) * 64 + (unat b1 - 0x80)), 2) else (None, 1)
         | [] \<Rightarrow> (None, 1))
      else if b0 < 0xF0 then
        (case bs of
           b1 # b2 # _ \<Rightarrow>
             if \<not> second_ok b0 b1 then (None, 1)
             else if \<not> is_cont b2 then (None, 2)
             else (Some ((b0 - 0xE0) * 4096 + (unat b1 - 0x80) * 64 + (unat b2 - 0x80)), 3)
         | [b1] \<Rightarrow> if \<not> second_ok b0 b1 then (None, 1) else (None, 2)
         | [] \<Rightarrow> (None, 1))
      else if b0 < 0xF5 then
        (case bs of
           b1 # b2 # b3 # _ \<Rightarrow>
             if \<not> second_ok b0 b1 then (None, 1)
             else if \<not> is_cont b2 then (None, 2)
             else if \<not> is_cont b3 then (None, 3)
             else (Some ((b0 - 0xF0) * 262144 + (unat b1 - 0x80) * 4096
                         + (unat b2 - 0x80) * 64 + (unat b3 - 0x80)), 4)
         | [b1, b2] \<Rightarrow>
             if \<not> second_ok b0 b1 then (None, 1)
             else if \<not> is_cont b2 then (None, 2) else (None, 3)
         | [b1] \<Rightarrow> if \<not> second_ok b0 b1 then (None, 1) else (None, 2)
         | [] \<Rightarrow> (None, 1))
      else (None, 1))"

text \<open>The whole input as a list of decoding steps, in order.\<close>

function utf8_scan :: "bytes \<Rightarrow> nat option list" where
  "utf8_scan [] = []"
| "utf8_scan (b # bs) =
     (case utf8_decode_step b bs of (r, n) \<Rightarrow> r # utf8_scan (drop (n - 1) bs))"
  by pat_completeness auto
termination
  by (relation "measure length") auto

fun decode_utf8_steps :: "errors \<Rightarrow> nat option list \<Rightarrow> exn + pystr" where
  "decode_utf8_steps h [] = Inr []"
| "decode_utf8_steps h (Some cp # rs) =
     (case decode_utf8_steps h rs of Inl e \<Rightarrow> Inl e | Inr s \<Rightarrow> Inr (cp # s))"
| "decode_utf8_steps h (None # rs) =
     (case h of
        Strict \<Rightarrow> Inl (Exn (str ''UnicodeDecodeError''))
      | Ignore \<Rightarrow> decode_utf8_steps h rs
      | Replace \<Rightarrow> (case decode_utf8_steps h rs of Inl e \<Rightarrow> Inl e | Inr s \<Rightarrow> Inr (0xFFFD # s)))"

definition decode_utf8 :: "errors \<Rightarrow> bytes \<Rightarrow> exn + pystr" where
  "decode_utf8 h bs = decode_utf8_steps h (utf8_scan bs)"

section \<open>The environment of a lookup\<close>

text \<open>
  Queries are sent over TCP sockets. What a socket does is not decided by the program:
  creating it, \<^verbatim>\<open>settimeout\<close>, \<^verbatim>\<open>connect\<close> or \<^verbatim>\<open>sendall\<close> may raise, and after that the
  \<open>n\<close>-th call of \<^verbatim>\<open>recv\<close> either raises (a timeout, a reset) or returns a chunk, the empty
  chunk when the peer has closed.
\<close>

datatype socket_script = Fails exn | Connected "nat \<Rightarrow> exn + bytes"

text \<open>
  The environment: whether \<^verbatim>\<open>import whois\<close> succeeded (\<^verbatim>\<open>HAVE_PYWHOIS\<close>) and what
  \<^verbatim>\<open>pywhois.whois\<close> does for a domain (it raises, or yields the dictionary \<^verbatim>\<open>d\<close> together with
  \<^verbatim>\<open>str(d)\<close>); what the network does with a connection to a host and port, under a timeout,
  for a request payload; and the tables of the Unicode database that the string methods and
  the \<^verbatim>\<open>re\<close> module consult: \<^verbatim>\<open>str.isspace\<close> for one code point (also the class \<^verbatim>\<open>\s\<close>),
  \<^verbatim>\<open>str.lower\<close>, and the comparison of a pattern character with a text character under
  \<^verbatim>\<open>re.IGNORECASE\<close>. The world \<open>'w\<close> is whatever the network and the library depend on; it
  changes with every call. The call of the library is taken to return; the timeout is a
  number the program only passes on.
\<close>

type_synonym pydict = "(pystr \<times> pystr) list"

record 'w env =
  HAVE_PYWHOIS :: bool
  pywhois_whois :: "pystr \<Rightarrow> 'w \<Rightarrow> (exn + pydict \<times> pystr) \<times> 'w"
  network :: "pystr \<Rightarrow> int \<Rightarrow> real \<Rightarrow> bytes \<Rightarrow> 'w \<Rightarrow> socket_script \<times> 'w"
  u_isspace :: "nat \<Rightarrow> bool"
  u_lower :: "pystr \<Rightarrow> pystr"
  u_ieq :: "nat \<Rightarrow> nat \<Rightarrow> bool"

text \<open>
  The state threaded through a run: the world, and the log of the transport queries made so
  far, oldest first, each with the arguments of \<^verbatim>\<open>whois_query_server\<close>
  (query, server, port, timeout).
\<close>

type_synonym call = "pystr \<times> pystr \<times> int \<times> real"

record 'w sys =
  world :: 'w
  calls :: "call list"

definition DEFAULT_WHOIS_PORT :: int where
  "DEFAULT_WHOIS_PORT = 43"

section \<open>Transport: \<^verbatim>\<open>whois_query_server\<close>\<close>

text \<open>
  The receive loop \<^verbatim>\<open>while True: chunk = s.recv(BUFFER_SIZE); if not chunk: break;
  data_parts.append(chunk)\<close>. A peer that keeps sending never lets it end: the loop is a
  partial function, \<open>None\<close> when it does not return.
\<close>

partial_function (option) recv_loop ::
  "(nat \<Rightarrow> exn + bytes) \<Rightarrow> nat \<Rightarrow> bytes list \<Rightarrow> (exn + bytes list) option" where
  "recv_loop rcv n data_parts =
     (case rcv n of
        Inl e \<Rightarrow> Some (Inl e)
      | Inr chunk \<Rightarrow>
          if chunk = [] then Some (Inr data_parts)
          else recv_loop rcv (Suc n) (data_parts @ [chunk]))"

declare recv_loop.simps [code]

text \<open>
  \<^verbatim>\<open>whois_query_server(query, server, port, timeout)\<close>: the exception raised or the text
  returned, with the state after the call; \<open>None\<close> when the call does not return. The call
  is logged, the payload is \<^verbatim>\<open>(query + "\r\n").encode('utf-8', errors='ignore')\<close>, and the
  result is \<^verbatim>\<open>b"".join(data_parts).decode('utf-8', errors='ignore')\<close>. The socket is closed
  on every path (\<^verbatim>\<open>finally\<close>), which leaves nothing to observe here.
\<close>

definition whois_query_server ::
  "'w env \<Rightarrow> pystr \<Rightarrow> pystr \<Rightarrow> int \<Rightarrow> real \<Rightarrow> 'w sys \<Rightarrow> ((exn + pystr) \<times> 'w sys) option" where
  "whois_query_server env query server port timeout s =
     (let logged = s\<lparr>calls := calls s @ [(query, server, port, timeout)]\<rparr> in
      case encode_utf8 Ignore (query @ [0x0D, 0x0A]) of
        Inl e \<Rightarrow> Some (Inl e, logged)
      | Inr payload \<Rightarrow>
          (case network env server port timeout payload (world s) of
             (Fails e, w) \<Rightarrow> Some (Inl e, logged\<lparr>world := w\<rparr>)
           | (Connected rcv, w) \<Rightarrow>
               (case recv_loop rcv 0 [] of
                  None \<Rightarrow> None
                | Some (Inl e) \<Rightarrow> Some (Inl e, logged\<lparr>world := w\<rparr>)
                | Some (Inr data_parts) \<Rightarrow>
                    (case decode_utf8 Ignore (concat data_parts) of
                       Inl e \<Rightarrow> Some (Inl e, logged\<lparr>world := w\<rparr>)
                     | Inr text \<Rightarrow> Some (Inr text, logged\<lparr>world := w\<rparr>)))))"

section \<open>String methods and the two regular expressions\<close>

text \<open>\<^verbatim>\<open>s.strip()\<close>: the whitespace at both ends goes.\<close>

definition strip :: "'w env \<Rightarrow> pystr \<Rightarrow> pystr" where
  "strip env s = rev (dropWhile (u_isspace env) (rev (dropWhile (u_isspace env) s)))"

text \<open>\<^verbatim>\<open>s.split(".")\<close>: the pieces between the dots, at least one piece.\<close>

fun split_dot :: "pystr \<Rightarrow> pystr list" where
  "split_dot [] = [[]]"
| "split_dot (c # cs) =
     (if c = 0x2E then [] # split_dot cs
      else (case split_dot cs of p # ps \<Rightarrow> (c # p) # ps | [] \<Rightarrow> [[c]]))"

text \<open>\<^verbatim>\<open>s.endswith(suffix)\<close>.\<close>

definition endswith :: "pystr \<Rightarrow> pystr \<Rightarrow> bool" where
  "endswith s suffix =
     (length suffix \<le> length s \<and> drop (length s - length suffix) s = suffix)"

text \<open>
  Both patterns of the source, \<^verbatim>\<open>whois:\s*(\S+)\<close> and \<^verbatim>\<open>Whois Server:\s*(\S+)\<close>, are a
  literal followed by \<^verbatim>\<open>\s*(\S+)\<close>, compiled with \<^verbatim>\<open>re.IGNORECASE\<close>.
  \<open>match_literal\<close> matches the literal at the start of the text and returns what follows it.
  After the literal the greedy \<^verbatim>\<open>\s*\<close> takes all the whitespace there is; giving some of it
  back cannot help \<^verbatim>\<open>\S+\<close>, which then takes every character up to the next whitespace and
  needs at least one. \<open>match_here\<close> is the match at one position, with the text of group 1.
  \<^verbatim>\<open>re.search\<close> tries the positions from left to right and stops at the first that matches:
  \<open>re_search_group1 env lit text\<close> is \<^verbatim>\<open>m.group(1)\<close> for
  \<^verbatim>\<open>m = re.search(lit + r"\s*(\S+)", text, re.IGNORECASE)\<close>, and \<open>None\<close> when \<^verbatim>\<open>m\<close> is
  \<^verbatim>\<open>None\<close>.
\<close>

fun match_literal :: "'w env \<Rightarrow> pystr \<Rightarrow> pystr \<Rightarrow> pystr option" where
  "match_literal env [] text = Some text"
| "match_literal env (p # ps) [] = None"
| "match_literal env (p # ps) (c # text) =
     (if u_ieq env p c then match_literal env ps text else None)"

definition match_here :: "'w env \<Rightarrow> pystr \<Rightarrow> pystr \<Rightarrow> pystr option" where
  "match_here env lit text =
     (case match_literal env lit text of
        None \<Rightarrow> None
      | Some rest \<Rightarrow>
          (let group1 = takeWhile (\<lambda>c. \<not> u_isspace env c) (dropWhile (u_isspace env) rest)
           in if group1 = [] then None else Some group1))"

fun re_search_group1 :: "'w env \<Rightarrow> pystr \<Rightarrow> pystr \<Rightarrow> pystr option" where
  "re_search_group1 env lit [] = match_here env lit []"
| "re_search_group1 env lit (c # text) =
     (case match_here env lit (c # text) of
        Some g \<Rightarrow> Some g
      | None \<Rightarrow> re_search_group1 env lit text)"

section \<open>Discovery: \<^verbatim>\<open>find_whois_server_for_tld\<close>\<close>

text \<open>
  The same in both source files: ask \<^verbatim>\<open>whois.iana.org\<close> (default port) for the label; an
  exception of the query is caught and gives \<^verbatim>\<open>None\<close>; otherwise the first match of
  \<^verbatim>\<open>whois:\s*(\S+)\<close> gives \<^verbatim>\<open>m.group(1).strip()\<close>, no match gives \<^verbatim>\<open>None\<close>.
\<close>

definition find_whois_server_for_tld ::
  "'w env \<Rightarrow> pystr \<Rightarrow> real \<Rightarrow> 'w sys \<Rightarrow> (pystr option \<times> 'w sys) option" where
  "find_whois_server_for_tld env tld timeout s =
     (case whois_query_server env tld (str ''whois.iana.org'') DEFAULT_WHOIS_PORT timeout s of
        None \<Rightarrow> None
      | Some (Inl e, s') \<Rightarrow> Some (None, s')
      | Some (Inr resp, s') \<Rightarrow>
          (case re_search_group1 env (str ''whois:'') resp of
             Some g \<Rightarrow> Some (Some (strip env g), s')
           | None \<Rightarrow> Some (None, s')))"

section \<open>The lookup: \<^verbatim>\<open>smart_whois\<close>\<close>

text \<open>
  The dictionary \<^verbatim>\<open>out\<close>. The keys \<^verbatim>\<open>query\<close>, \<^verbatim>\<open>server_used\<close>, \<^verbatim>\<open>raw\<close> and \<^verbatim>\<open>error\<close> are always
  there, the last three with the value \<^verbatim>\<open>None\<close> at first; the keys \<^verbatim>\<open>parsed\<close>, \<^verbatim>\<open>raw_follow\<close>,
  \<^verbatim>\<open>server_used_follow\<close> and \<^verbatim>\<open>notes\<close> are added on the way and are never given the value
  \<^verbatim>\<open>None\<close>, so \<open>None\<close> in their fields stands for an absent key (\<open>notes_list\<close> is the key
  \<^verbatim>\<open>notes\<close>).
\<close>

record lookup_result =
  query :: pystr
  server_used :: "pystr option"
  raw :: "pystr option"
  error :: "pystr option"
  parsed :: "pydict option"
  raw_follow :: "pystr option"
  server_used_follow :: "pystr option"
  notes_list :: "pystr list option"

definition new_result :: "pystr \<Rightarrow> lookup_result" where
  "new_result domain =
     \<lparr>query = domain, server_used = None, raw = None, error = None, parsed = None,
      raw_follow = None, server_used_follow = None, notes_list = None\<rparr>"

text \<open>Truth of an \<^verbatim>\<open>Optional[str]\<close>: neither \<^verbatim>\<open>None\<close> nor the empty string.\<close>

fun truthy :: "pystr option \<Rightarrow> bool" where
  "truthy None = False"
| "truthy (Some s) = (s \<noteq> [])"

text \<open>
  The two source files, \<^verbatim>\<open>who_is_CLI.py\<close> and \<^verbatim>\<open>whois_cli.py\<close>, define the same functions.
  \<^verbatim>\<open>whois_query_server\<close> and \<^verbatim>\<open>find_whois_server_for_tld\<close> are the same text in both;
  \<^verbatim>\<open>smart_whois\<close> and \<^verbatim>\<open>main\<close> differ.
\<close>

datatype source_file = Who_is_CLI | Whois_cli

subsection \<open>The optional parser (\<^verbatim>\<open>if HAVE_PYWHOIS and server is None\<close>)\<close>

text \<open>
  \<open>Inl\<close> is the dictionary returned at once, \<open>Inr\<close> the dictionary the function goes on with.
  \<^verbatim>\<open>who_is_CLI.py\<close> lines 81-90 store \<^verbatim>\<open>str(d)\<close> under \<^verbatim>\<open>raw\<close>; \<^verbatim>\<open>whois_cli.py\<close> lines 70-78 do
  not.
\<close>

definition try_pywhois_who_is_CLI ::
  "'w env \<Rightarrow> pystr \<Rightarrow> pystr option \<Rightarrow> lookup_result \<Rightarrow> 'w sys
     \<Rightarrow> (lookup_result + lookup_result) \<times> 'w sys" where
  "try_pywhois_who_is_CLI env domain server out s =
     (if HAVE_PYWHOIS env \<and> server = None then
        (case pywhois_whois env domain (world s) of
           (Inr (d, str_d), w) \<Rightarrow>
             (Inl (out\<lparr>server_used := Some (str ''python-whois''), raw := Some str_d,
                       parsed := Some d\<rparr>), s\<lparr>world := w\<rparr>)
         | (Inl e, w) \<Rightarrow>
             (Inr (out\<lparr>error := Some (str ''python-whois failed: '' @ exn_str e)\<rparr>),
              s\<lparr>world := w\<rparr>))
      else (Inr out, s))"

definition try_pywhois_whois_cli ::
  "'w env \<Rightarrow> pystr \<Rightarrow> pystr option \<Rightarrow> lookup_result \<Rightarrow> 'w sys
     \<Rightarrow> (lookup_result + lookup_result) \<times> 'w sys" where
  "try_pywhois_whois_cli env domain server out s =
     (if HAVE_PYWHOIS env \<and> server = None then
        (case pywhois_whois env domain (world s) of
           (Inr (d, str_d), w) \<Rightarrow>
             (Inl (out\<lparr>server_used := Some (str ''python-whois''), parsed := Some d\<rparr>),
              s\<lparr>world := w\<rparr>)
         | (Inl e, w) \<Rightarrow>
             (Inr (out\<lparr>error := Some (str ''python-whois failed: '' @ exn_str e)\<rparr>),
              s\<lparr>world := w\<rparr>))
      else (Inr out, s))"

fun try_pywhois ::
  "source_file \<Rightarrow> 'w env \<Rightarrow> pystr \<Rightarrow> pystr option \<Rightarrow> lookup_result \<Rightarrow> 'w sys
     \<Rightarrow> (lookup_result + lookup_result) \<times> 'w sys" where
  "try_pywhois Who_is_CLI = try_pywhois_who_is_CLI"
| "try_pywhois Whois_cli = try_pywhois_whois_cli"

subsection \<open>The server to query (\<^verbatim>\<open>server_to_use\<close>)\<close>

text \<open>
  \<^verbatim>\<open>who_is_CLI.py\<close> lines 92-100. The override is used whenever it is not \<^verbatim>\<open>None\<close>;
  \<^verbatim>\<open>srv or (...)\<close> takes the static fallback when discovery gave nothing.
\<close>

definition fallback_who_is_CLI :: "pystr \<Rightarrow> pystr" where
  "fallback_who_is_CLI tld =
     (if tld = str ''com'' \<or> tld = str ''net'' then str ''whois.verisign-grs.com''
      else str ''whois.iana.org'')"

definition resolve_server_who_is_CLI ::
  "'w env \<Rightarrow> pystr \<Rightarrow> pystr option \<Rightarrow> real \<Rightarrow> 'w sys \<Rightarrow> (pystr \<times> 'w sys) option" where
  "resolve_server_who_is_CLI env domain server timeout s =
     (case server of
        Some server_to_use \<Rightarrow> Some (server_to_use, s)
      | None \<Rightarrow>
          (let parts = split_dot (u_lower env domain) in
           if length parts < 2 then Some (str ''whois.iana.org'', s)
           else
             (let tld = last parts in
              case find_whois_server_for_tld env tld timeout s of
                None \<Rightarrow> None
              | Some (srv, s') \<Rightarrow>
                  Some (if truthy srv then (case srv of Some x \<Rightarrow> x | None \<Rightarrow> [])
                        else fallback_who_is_CLI tld, s'))))"

text \<open>
  \<^verbatim>\<open>whois_cli.py\<close> lines 80-96. The override is used when it is truthy (\<^verbatim>\<open>if not
  server_to_use\<close>), and the fallback has a third entry, tested on the last label and on the
  domain as given (not lowercased).
\<close>

definition fallback_whois_cli :: "pystr \<Rightarrow> pystr \<Rightarrow> pystr" where
  "fallback_whois_cli domain tld =
     (if tld = str ''com'' \<or> tld = str ''net'' then str ''whois.verisign-grs.com''
      else if tld = str ''id'' \<or> endswith domain (str ''.sch.id'') then str ''whois.pandi.or.id''
      else str ''whois.iana.org'')"

definition resolve_server_whois_cli ::
  "'w env \<Rightarrow> pystr \<Rightarrow> pystr option \<Rightarrow> real \<Rightarrow> 'w sys \<Rightarrow> (pystr \<times> 'w sys) option" where
  "resolve_server_whois_cli env domain server timeout s =
     (if truthy server then Some (case server of Some x \<Rightarrow> x | None \<Rightarrow> [], s)
      else
        (let parts = split_dot (u_lower env domain) in
         if length parts < 2 then Some (str ''whois.iana.org'', s)
         else
           (let tld = last parts in
            case find_whois_server_for_tld env tld timeout s of
              None \<Rightarrow> None
            | Some (srv, s') \<Rightarrow>
                Some (if truthy srv then (case srv of Some x \<Rightarrow> x | None \<Rightarrow> [])
                      else fallback_whois_cli domain tld, s'))))"

fun resolve_server ::
  "source_file \<Rightarrow> 'w env \<Rightarrow> pystr \<Rightarrow> pystr option \<Rightarrow> real \<Rightarrow> 'w sys
     \<Rightarrow> (pystr \<times> 'w sys) option" where
  "resolve_server Who_is_CLI = resolve_server_who_is_CLI"
| "resolve_server Whois_cli = resolve_server_whois_cli"

subsection \<open>The primary query and the referral\<close>

text \<open>
  \<^verbatim>\<open>who_is_CLI.py\<close> lines 102-119, \<^verbatim>\<open>whois_cli.py\<close> lines 98-115, the same text. The failure
  of the primary query sets \<^verbatim>\<open>error\<close> and returns; its success sets \<^verbatim>\<open>raw\<close>, and the first
  match of \<^verbatim>\<open>Whois Server:\s*(\S+)\<close> names the referral, followed when it is not empty and not
  the server just queried. The failure of that second query appends to \<^verbatim>\<open>notes\<close>.
\<close>

definition query_and_follow ::
  "'w env \<Rightarrow> lookup_result \<Rightarrow> pystr \<Rightarrow> pystr \<Rightarrow> int \<Rightarrow> real \<Rightarrow> 'w sys
     \<Rightarrow> (lookup_result \<times> 'w sys) option" where
  "query_and_follow env out0 domain server_to_use port timeout s =
     (let out = out0\<lparr>server_used := Some server_to_use\<rparr> in
      case whois_query_server env domain server_to_use port timeout s of
        None \<Rightarrow> None
      | Some (Inl exc, s1) \<Rightarrow> Some (out\<lparr>error := Some (exn_str exc)\<rparr>, s1)
      | Some (Inr raw_text, s1) \<Rightarrow>
          (let out1 = out\<lparr>raw := Some raw_text\<rparr> in
           case re_search_group1 env (str ''Whois Server:'') raw_text of
             None \<Rightarrow> Some (out1, s1)
           | Some g \<Rightarrow>
               (let ref = strip env g in
                if ref \<noteq> [] \<and> ref \<noteq> server_to_use then
                  (case whois_query_server env domain ref port timeout s1 of
                     None \<Rightarrow> None
                   | Some (Inr raw2, s2) \<Rightarrow>
                       Some (out1\<lparr>raw_follow := Some raw2, server_used_follow := Some ref\<rparr>, s2)
                   | Some (Inl e, s2) \<Rightarrow>
                       Some (out1\<lparr>notes_list :=
                               Some ((case notes_list out1 of None \<Rightarrow> [] | Some ns \<Rightarrow> ns)
                                     @ [str ''follow referral failed: '' @ exn_str e])\<rparr>, s2))
                else Some (out1, s1))))"

subsection \<open>\<^verbatim>\<open>smart_whois\<close>\<close>

text \<open>
  What comes before the primary query: the domain is stripped, the optional parser is tried
  and the server is chosen. \<open>Inl\<close> is the dictionary returned at once, \<open>Inr\<close> the dictionary
  so far with the stripped domain and \<^verbatim>\<open>server_to_use\<close>.
\<close>

definition prepare ::
  "source_file \<Rightarrow> 'w env \<Rightarrow> pystr \<Rightarrow> pystr option \<Rightarrow> real \<Rightarrow> 'w sys
     \<Rightarrow> ((lookup_result + lookup_result \<times> pystr \<times> pystr) \<times> 'w sys) option" where
  "prepare f env domain0 server timeout s =
     (let domain = strip env domain0 in
      case try_pywhois f env domain server (new_result domain) s of
        (Inl out, s1) \<Rightarrow> Some (Inl out, s1)
      | (Inr out, s1) \<Rightarrow>
          (case resolve_server f env domain server timeout s1 of
             None \<Rightarrow> None
           | Some (server_to_use, s2) \<Rightarrow> Some (Inr (out, domain, server_to_use), s2)))"

definition smart_whois ::
  "source_file \<Rightarrow> 'w env \<Rightarrow> pystr \<Rightarrow> pystr option \<Rightarrow> int \<Rightarrow> real \<Rightarrow> 'w sys
     \<Rightarrow> (lookup_result \<times> 'w sys) option" where
  "smart_whois f env domain0 server port timeout s =
     (case prepare f env domain0 server timeout s of
        None \<Rightarrow> None
      | Some (Inl out, s1) \<Rightarrow> Some (out, s1)
      | Some (Inr (out, domain, server_to_use), s1) \<Rightarrow>
          query_and_follow env out domain server_to_use port timeout s1)"

section \<open>The loop of \<^verbatim>\<open>main\<close>\<close>

text \<open>
  The arguments the loop over the domains reads, and the list \<^verbatim>\<open>results\<close> it builds (the
  list \<^verbatim>\<open>json.dumps\<close> prints, and per domain the dictionary the text report is printed
  from). \<^verbatim>\<open>who_is_CLI.py\<close> lines 154-164: in quiet text mode only \<^verbatim>\<open>raw\<close> is printed and
  nothing is collected; otherwise \<^verbatim>\<open>--no-referral\<close> pops the two referral keys before the
  dictionary is collected. \<^verbatim>\<open>whois_cli.py\<close> lines 157-160: every dictionary is collected as
  \<^verbatim>\<open>smart_whois\<close> returned it; \<^verbatim>\<open>args.quiet\<close> and \<^verbatim>\<open>args.no_referral\<close> are not read.
\<close>

datatype output_format = Text | Json

record args =
  arg_server :: "pystr option"
  arg_port :: int
  arg_timeout :: real
  arg_output :: output_format
  arg_quiet :: bool
  arg_no_referral :: bool

fun main_results_who_is_CLI ::
  "'w env \<Rightarrow> args \<Rightarrow> pystr list \<Rightarrow> lookup_result list \<Rightarrow> 'w sys
     \<Rightarrow> (lookup_result list \<times> 'w sys) option" where
  "main_results_who_is_CLI env a [] results s = Some (results, s)"
| "main_results_who_is_CLI env a (d # domains) results s =
     (case smart_whois Who_is_CLI env d (arg_server a) (arg_port a) (arg_timeout a) s of
        None \<Rightarrow> None
      | Some (res, s1) \<Rightarrow>
          if arg_quiet a \<and> arg_output a = Text then
            main_results_who_is_CLI env a domains results s1
          else
            main_results_who_is_CLI env a domains
              (results @ [if arg_no_referral a
                          then res\<lparr>raw_follow := None, server_used_follow := None\<rparr>
                          else res]) s1)"

fun main_results_whois_cli ::
  "'w env \<Rightarrow> args \<Rightarrow> pystr list \<Rightarrow> lookup_result list \<Rightarrow> 'w sys
     \<Rightarrow> (lookup_result list \<times> 'w sys) option" where
  "main_results_whois_cli env a [] results s = Some (results, s)"
| "main_results_whois_cli env a (d # domains) results s =
     (case smart_whois Whois_cli env d (arg_server a) (arg_port a) (arg_timeout a) s of
        None \<Rightarrow> None
      | Some (res, s1) \<Rightarrow> main_results_whois_cli env a domains (results @ [res]) s1)"

fun main_results ::
  "source_file \<Rightarrow> 'w env \<Rightarrow> args \<Rightarrow> pystr list \<Rightarrow> lookup_result list \<Rightarrow> 'w sys
     \<Rightarrow> (lookup_result list \<times> 'w sys) option" where
  "main_results Who_is_CLI = main_results_who_is_CLI"
| "main_results Whois_cli = main_results_whois_cli"

section \<open>Environments for the examples\<close>

text \<open>
  The examples run on ASCII text. \<open>py_isspace\<close> lists the code points for which
  \<^verbatim>\<open>str.isspace\<close> holds; the case tables are those of the ASCII letters. A host of the table
  answers with the script given for it, any other host refuses the connection; the optional
  parser, when installed, does what \<open>pyw\<close> says.
\<close>

definition py_isspace :: "nat \<Rightarrow> bool" where
  "py_isspace c =
     ((0x09 \<le> c \<and> c \<le> 0x0D) \<or> (0x1C \<le> c \<and> c \<le> 0x20) \<or> c = 0x85 \<or> c = 0xA0 \<or> c = 0x1680
      \<or> (0x2000 \<le> c \<and> c \<le> 0x200A) \<or> c = 0x2028 \<or> c = 0x2029 \<or> c = 0x202F \<or> c = 0x205F
      \<or> c = 0x3000)"

definition ascii_lower :: "nat \<Rightarrow> nat" where
  "ascii_lower c = (if 0x41 \<le> c \<and> c \<le> 0x5A then c + 0x20 else c)"

definition reply :: "bytes \<Rightarrow> socket_script" where
  "reply body = Connected (\<lambda>n. if n = 0 then Inr body else Inr [])"

definition example_env ::
  "bool \<Rightarrow> (pystr \<Rightarrow> exn + pydict \<times> pystr) \<Rightarrow> (pystr \<times> socket_script) list \<Rightarrow> unit env" where
  "example_env have pyw hosts =
     \<lparr>HAVE_PYWHOIS = have,
      pywhois_whois = (\<lambda>domain w. (pyw domain, w)),
      network = (\<lambda>server port timeout payload w.
        ((case map_of hosts server of
            Some script \<Rightarrow> script
          | None \<Rightarrow> Fails (Exn (str ''Connection refused''))), w)),
      u_isspace = py_isspace,
      u_lower = map ascii_lower,
      u_ieq = (\<lambda>p c. ascii_lower p = ascii_lower c)\<rparr>"

definition start :: "unit sys" where
  "start = \<lparr>world = (), calls = []\<rparr>"

text \<open>
  The networks of the examples. \<open>offline_hosts\<close>: no host answers. \<open>referral_hosts\<close>: the root registry
  names \<^verbatim>\<open>a.ex\<close>, which refers to \<^verbatim>\<open>b.ex\<close>, which refers to \<^verbatim>\<open>c.ex\<close>.
  \<open>dead_referral_hosts\<close>: the same, but \<^verbatim>\<open>b.ex\<close> does not answer.
\<close>

definition offline_hosts :: "(pystr \<times> socket_script) list" where
  "offline_hosts = []"

definition referral_hosts :: "(pystr \<times> socket_script) list" where
  "referral_hosts =
     [(str ''whois.iana.org'', reply (map of_char ''whois: a.ex'')),
      (str ''a.ex'', reply (map of_char ''Whois Server: b.ex'')),
      (str ''b.ex'', reply (map of_char ''Whois Server: c.ex''))]"

definition dead_referral_hosts :: "(pystr \<times> socket_script) list" where
  "dead_referral_hosts =
     [(str ''whois.iana.org'', reply (map of_char ''whois: a.ex'')),
      (str ''a.ex'', reply (map of_char ''Whois Server: b.ex''))]"

definition pywhois_fails :: "pystr \<Rightarrow> exn + pydict \<times> pystr" where
  "pywhois_fails domain = Inl (Exn (str ''boom''))"

definition pywhois_answers :: "pystr \<Rightarrow> exn + pydict \<times> pystr" where
  "pywhois_answers domain = Inr ([(str ''domain_name'', domain)], str ''{...}'')"

text \<open>
  \<open>repeated_hosts\<close>: \<^verbatim>\<open>a.ex\<close> answers with two lines, the first naming itself, the second
  naming \<^verbatim>\<open>b.ex\<close>.
\<close>

definition repeated_hosts :: "(pystr \<times> socket_script) list" where
  "repeated_hosts =
     [(str ''a.ex'', reply (map of_char ''Whois Server: a.ex\<newline>Whois Server: b.ex''))]"

text \<open>
  \<open>garbled_hosts\<close>: \<^verbatim>\<open>a.ex\<close> answers with the letter A, the byte 0xFF and the two bytes of
  U+00E9; \<^verbatim>\<open>b.ex\<close> answers with the two bytes of U+00E9 alone.
\<close>

definition garbled_hosts :: "(pystr \<times> socket_script) list" where
  "garbled_hosts =
     [(str ''a.ex'', reply [0x41, 0xFF, 0xC3, 0xA9]),
      (str ''b.ex'', reply [0xC3, 0xA9])]"

section \<open>Basic facts\<close>

lemma whois_query_server_calls:
  assumes "whois_query_server env q srv p t s = Some (r, s')"
  shows "calls s' = calls s @ [(q, srv, p, t)]"
  using assms
  by (auto simp: whois_query_server_def Let_def
      split: sum.splits prod.splits socket_script.splits option.splits)

text \<open>Group 1 of a match is never empty and holds no whitespace, so stripping it changes nothing.\<close>

lemma match_here_group:
  assumes "match_here env lit body = Some g"
  shows "g \<noteq> [] \<and> (\<forall>c\<in>set g. \<not> u_isspace env c)"
  using assms
  by (auto simp: match_here_def Let_def split: option.splits if_splits dest: set_takeWhileD)

lemma re_search_group1_group:
  assumes "re_search_group1 env lit body = Some g"
  shows "g \<noteq> [] \<and> (\<forall>c\<in>set g. \<not> u_isspace env c)"
  using assms
proof (induction body)
  case Nil
  then show ?case using match_here_group[of env lit "[]" g] by simp
next
  case (Cons c body)
  then show ?case using match_here_group[of env lit "c # body" g]
    by (auto split: option.splits)
qed

lemma strip_no_space:
  assumes "\<forall>c\<in>set g. \<not> u_isspace env c"
  shows "strip env g = g"
proof -
  have "dropWhile (u_isspace env) g = g"
    using assms by (cases g) auto
  moreover have "dropWhile (u_isspace env) (rev g) = rev g"
    using assms by (cases "rev g") (auto simp: rev_eq_Cons_iff)
  ultimately show ?thesis by (simp add: strip_def)
qed

lemma strip_group:
  assumes "re_search_group1 env lit body = Some g"
  shows "strip env g = g" "g \<noteq> []"
  using re_search_group1_group[OF assms] strip_no_space by auto

lemma find_whois_server_calls:
  assumes "find_whois_server_for_tld env tld t s = Some (r, s')"
  shows "calls s' = calls s @ [(tld, str ''whois.iana.org'', DEFAULT_WHOIS_PORT, t)]"
  using assms
  by (auto simp del: list.map simp: find_whois_server_for_tld_def
      split: sum.splits prod.splits option.splits dest: whois_query_server_calls)

lemma find_whois_server_truthy:
  assumes "find_whois_server_for_tld env tld t s = Some (Some x, s')"
  shows "x \<noteq> []"
  using assms
  by (auto simp del: list.map simp: find_whois_server_for_tld_def strip_group
      split: sum.splits prod.splits option.splits)

subsection \<open>The example environments\<close>

lemma encode_ignore_total: "\<exists>bs. encode_utf8 Ignore s = Inr bs"
  by (induction s) (auto split: option.splits)

lemma recv_loop_reply:
  "recv_loop (\<lambda>n. if n = 0 then Inr body else Inr []) 0 [] =
     Some (Inr (if body = [] then [] else [body]))"
  by (simp add: recv_loop.simps)

lemma example_query_refused:
  assumes "map_of hosts srv = None"
  shows "whois_query_server (example_env h p hosts) q srv port t s =
           Some (Inl (Exn (str ''Connection refused'')), s\<lparr>calls := calls s @ [(q, srv, port, t)]\<rparr>)"
proof -
  obtain bs where "encode_utf8 Ignore (q @ [0x0D, 0x0A]) = Inr bs"
    using encode_ignore_total by blast
  then show ?thesis
    using assms by (simp del: list.map add: whois_query_server_def example_env_def)
qed

lemma example_query_reply:
  assumes "map_of hosts srv = Some (reply body)" and "decode_utf8 Ignore body = Inr answer"
  shows "whois_query_server (example_env h p hosts) q srv port t s =
           Some (Inr answer, s\<lparr>calls := calls s @ [(q, srv, port, t)]\<rparr>)"
proof -
  obtain bs where enc: "encode_utf8 Ignore (q @ [0x0D, 0x0A]) = Inr bs"
    using encode_ignore_total by blast
  define parts where "parts = (if body = [] then [] else [body])"
  have rl: "recv_loop (\<lambda>n. if n = 0 then Inr body else Inr []) 0 [] = Some (Inr parts)"
    unfolding parts_def by (rule recv_loop_reply)
  have cc: "concat parts = body"
    by (simp add: parts_def)
  show ?thesis
    using assms enc
    by (simp del: list.map add: whois_query_server_def example_env_def reply_def rl cc)
qed

lemma utf8_scan_ascii:
  assumes "\<forall>b\<in>set bs. unat b < 0x80"
  shows "utf8_scan bs = map (\<lambda>b. Some (unat b)) bs"
  using assms by (induction bs) simp_all

lemma decode_utf8_steps_ascii:
  "decode_utf8_steps h (map (\<lambda>b. Some (unat b)) bs) = Inr (map unat bs)"
  by (induction bs) simp_all

lemma decode_utf8_ascii:
  assumes "\<forall>b\<in>set bs. unat b < 0x80"
  shows "decode_utf8 h bs = Inr (map unat bs)"
  using utf8_scan_ascii[OF assms] decode_utf8_steps_ascii[of h bs]
  by (simp add: decode_utf8_def)

lemma find_offline:
  "find_whois_server_for_tld (example_env h p offline_hosts) tld t s =
     Some (None, s\<lparr>calls := calls s @ [(tld, str ''whois.iana.org'', 43, t)]\<rparr>)"
  using example_query_refused[of offline_hosts "str ''whois.iana.org''" h p tld DEFAULT_WHOIS_PORT t s]
  by (simp del: list.map add: find_whois_server_for_tld_def offline_hosts_def DEFAULT_WHOIS_PORT_def)

subsection \<open>The server chosen when discovery gives nothing\<close>

lemma resolve_server_no_answer:
  assumes "2 \<le> length (split_dot (u_lower env domain))"
      and "find_whois_server_for_tld env (last (split_dot (u_lower env domain))) timeout s
             = Some (None, s')"
  shows "resolve_server Who_is_CLI env domain None timeout s
           = Some (fallback_who_is_CLI (last (split_dot (u_lower env domain))), s')"
    and "resolve_server Whois_cli env domain None timeout s
           = Some (fallback_whois_cli domain (last (split_dot (u_lower env domain))), s')"
  using assms
  by (simp_all del: list.map add: resolve_server_who_is_CLI_def resolve_server_whois_cli_def Let_def)

lemma resolve_server_answer:
  assumes "2 \<le> length (split_dot (u_lower env domain))"
      and "find_whois_server_for_tld env (last (split_dot (u_lower env domain))) timeout s
             = Some (Some x, s')"
  shows "resolve_server f env domain None timeout s = Some (x, s')"
  using assms find_whois_server_truthy[OF assms(2)]
  by (cases f)
     (simp_all del: list.map add: resolve_server_who_is_CLI_def resolve_server_whois_cli_def Let_def)

subsection \<open>What \<^verbatim>\<open>smart_whois\<close> does before the primary query\<close>

lemma try_pywhois_cases:
  assumes "try_pywhois f env domain server (new_result domain) s = (r, s1)"
  shows "calls s1 = calls s"
    and "r = Inr out0 \<Longrightarrow> query out0 = domain \<and> server_used out0 = None \<and> raw out0 = None
           \<and> parsed out0 = None \<and> raw_follow out0 = None \<and> server_used_follow out0 = None
           \<and> notes_list out0 = None \<and> (error out0 = None \<or> HAVE_PYWHOIS env \<and> server = None)"
    and "r = Inl out \<Longrightarrow> HAVE_PYWHOIS env \<and> server = None \<and> error out = None
           \<and> parsed out \<noteq> None \<and> server_used out = Some (str ''python-whois'')
           \<and> (f = Who_is_CLI \<and> raw out \<noteq> None \<or> f = Whois_cli \<and> raw out = None)"
  using assms
  by (cases f;
      auto simp del: list.map
        simp: try_pywhois_who_is_CLI_def try_pywhois_whois_cli_def new_result_def
        split: if_splits prod.splits sum.splits)+

lemma resolve_server_calls:
  assumes "resolve_server f env domain server timeout s = Some (srv, s1)"
  shows "calls s1 = calls s \<or>
         calls s1 = calls s @ [(last (split_dot (u_lower env domain)), str ''whois.iana.org'',
                                DEFAULT_WHOIS_PORT, timeout)]"
  using assms
  by (cases f;
      auto simp del: list.map
        simp: resolve_server_who_is_CLI_def resolve_server_whois_cli_def Let_def
        split: if_splits option.splits prod.splits dest: find_whois_server_calls)

lemma prepare_Inr:
  assumes "prepare f env domain0 server timeout s = Some (Inr (out0, domain, srv), s1)"
  shows "domain = strip env domain0"
    and "query out0 = domain \<and> server_used out0 = None \<and> raw out0 = None
           \<and> parsed out0 = None \<and> raw_follow out0 = None \<and> server_used_follow out0 = None
           \<and> notes_list out0 = None \<and> (error out0 = None \<or> HAVE_PYWHOIS env \<and> server = None)"
    and "calls s1 = calls s \<or>
         calls s1 = calls s @ [(last (split_dot (u_lower env domain)), str ''whois.iana.org'',
                                DEFAULT_WHOIS_PORT, timeout)]"
proof -
  obtain r sa where
    tp: "try_pywhois f env (strip env domain0) server (new_result (strip env domain0)) s = (r, sa)"
    by fastforce
  from assms tp obtain out where r: "r = Inr out"
    by (cases r) (auto simp: prepare_def Let_def)
  from assms tp r
  have rs: "resolve_server f env (strip env domain0) server timeout sa = Some (srv, s1)"
    and o: "out = out0" and d: "domain = strip env domain0"
    by (auto simp: prepare_def Let_def split: option.splits)
  show "domain = strip env domain0" by (rule d)
  show "query out0 = domain \<and> server_used out0 = None \<and> raw out0 = None
           \<and> parsed out0 = None \<and> raw_follow out0 = None \<and> server_used_follow out0 = None
           \<and> notes_list out0 = None \<and> (error out0 = None \<or> HAVE_PYWHOIS env \<and> server = None)"
    using try_pywhois_cases(2)[OF tp, of out0] r o d by simp
  show "calls s1 = calls s \<or>
         calls s1 = calls s @ [(last (split_dot (u_lower env domain)), str ''whois.iana.org'',
                                DEFAULT_WHOIS_PORT, timeout)]"
    using resolve_server_calls[OF rs] try_pywhois_cases(1)[OF tp] d by simp
qed

lemma prepare_Inl:
  assumes "prepare f env domain0 server timeout s = Some (Inl out, s1)"
  shows "HAVE_PYWHOIS env \<and> server = None \<and> error out = None
           \<and> parsed out \<noteq> None \<and> server_used out = Some (str ''python-whois'')
           \<and> (f = Who_is_CLI \<and> raw out \<noteq> None \<or> f = Whois_cli \<and> raw out = None)
           \<and> calls s1 = calls s"
proof -
  obtain r sa where
    tp: "try_pywhois f env (strip env domain0) server (new_result (strip env domain0)) s = (r, sa)"
    by fastforce
  from assms tp have "r = Inl out \<and> sa = s1"
    by (cases r) (auto simp: prepare_def Let_def split: option.splits)
  then show ?thesis
    using try_pywhois_cases(1)[OF tp] try_pywhois_cases(3)[OF tp, of out] by simp
qed

text \<open>With an override that is not empty the primary query is the first thing that happens.\<close>

lemma prepare_override:
  assumes "x \<noteq> []"
  shows "prepare f env domain0 (Some x) timeout s
           = Some (Inr (new_result (strip env domain0), strip env domain0, x), s)"
  using assms
  by (cases f)
     (simp_all add: prepare_def Let_def try_pywhois_who_is_CLI_def try_pywhois_whois_cli_def
        resolve_server_who_is_CLI_def resolve_server_whois_cli_def)

subsection \<open>The primary query and the referral, with the stripping carried out\<close>

lemma query_and_follow_unfold:
  assumes prim: "whois_query_server env domain srv port timeout s1 = Some (Inr raw_text, s2)"
  shows "query_and_follow env out0 domain srv port timeout s1 =
     (case re_search_group1 env (str ''Whois Server:'') raw_text of
        None \<Rightarrow> Some (out0\<lparr>server_used := Some srv, raw := Some raw_text\<rparr>, s2)
      | Some tok \<Rightarrow>
          if tok = srv then Some (out0\<lparr>server_used := Some srv, raw := Some raw_text\<rparr>, s2)
          else
            (case whois_query_server env domain tok port timeout s2 of
               None \<Rightarrow> None
             | Some (Inr raw2, s3) \<Rightarrow>
                 Some (out0\<lparr>server_used := Some srv, raw := Some raw_text,
                            raw_follow := Some raw2, server_used_follow := Some tok\<rparr>, s3)
             | Some (Inl e, s3) \<Rightarrow>
                 Some (out0\<lparr>server_used := Some srv, raw := Some raw_text,
                            notes_list :=
                              Some ((case notes_list out0 of None \<Rightarrow> [] | Some ns \<Rightarrow> ns)
                                    @ [str ''follow referral failed: '' @ exn_str e])\<rparr>, s3)))"
  using prim
  by (auto simp del: list.map simp: query_and_follow_def Let_def strip_group
      split: option.splits sum.splits prod.splits)

lemma query_and_follow_raw_or_error:
  assumes "query_and_follow env out0 domain srv port timeout s1 = Some (out, s')"
  shows "raw out \<noteq> None \<or> error out \<noteq> None"
  using assms
  by (auto simp del: list.map simp: query_and_follow_def Let_def
      split: option.splits sum.splits prod.splits if_splits)

text \<open>\<^verbatim>\<open>smart_whois\<close> once the primary query has succeeded.\<close>

lemma smart_whois_after_primary:
  assumes prep: "prepare f env domain0 server timeout s = Some (Inr (out0, domain, srv), s1)"
      and prim: "whois_query_server env domain srv port timeout s1 = Some (Inr raw_text, s2)"
  shows "smart_whois f env domain0 server port timeout s =
     (case re_search_group1 env (str ''Whois Server:'') raw_text of
        None \<Rightarrow> Some (out0\<lparr>server_used := Some srv, raw := Some raw_text\<rparr>, s2)
      | Some tok \<Rightarrow>
          if tok = srv then Some (out0\<lparr>server_used := Some srv, raw := Some raw_text\<rparr>, s2)
          else
            (case whois_query_server env domain tok port timeout s2 of
               None \<Rightarrow> None
             | Some (Inr raw2, s3) \<Rightarrow>
                 Some (out0\<lparr>server_used := Some srv, raw := Some raw_text,
                            raw_follow := Some raw2, server_used_follow := Some tok\<rparr>, s3)
             | Some (Inl e, s3) \<Rightarrow>
                 Some (out0\<lparr>server_used := Some srv, raw := Some raw_text,
                            notes_list := Some [str ''follow referral failed: '' @ exn_str e]\<rparr>,
                       s3)))"
proof -
  have n: "notes_list out0 = None"
    using prepare_Inr(2)[OF prep] by simp
  show ?thesis
    using prep query_and_follow_unfold[OF prim, of out0]
    by (auto simp del: list.map simp: smart_whois_def n
        split: option.splits sum.splits prod.splits)
qed

lemma smart_whois_after_failure:
  assumes prep: "prepare f env domain0 server timeout s = Some (Inr (out0, domain, srv), s1)"
      and prim: "whois_query_server env domain srv port timeout s1 = Some (Inl e, s2)"
  shows "smart_whois f env domain0 server port timeout s
           = Some (out0\<lparr>server_used := Some srv, error := Some (exn_str e)\<rparr>, s2)"
  using prep prim by (simp add: smart_whois_def query_and_follow_def)

subsection \<open>Runs in the example environments\<close>

lemma strip_example: "strip (example_env h p hosts) (str ''ex.org'') = str ''ex.org''"
  by (simp add: strip_def example_env_def py_isspace_def)

lemma labels_example:
  "2 \<le> length (split_dot (u_lower (example_env h p hosts) (str ''ex.org'')))"
  "last (split_dot (u_lower (example_env h p hosts) (str ''ex.org''))) = str ''org''"
  by (simp_all add: example_env_def ascii_lower_def)

lemma search_whois_example:
  "re_search_group1 (example_env h p hosts) (str ''whois:'') (str ''whois: a.ex'') = Some (str ''a.ex'')"
  by (simp add: match_here_def example_env_def ascii_lower_def py_isspace_def)

lemma search_referral_example:
  "re_search_group1 (example_env h p hosts) (str ''Whois Server:'') (str ''Whois Server: b.ex'')
     = Some (str ''b.ex'')"
  "re_search_group1 (example_env h p hosts) (str ''Whois Server:'') (str ''Whois Server: c.ex'')
     = Some (str ''c.ex'')"
  "re_search_group1 (example_env h p hosts) (str ''Whois Server:'')
     (str ''Whois Server: a.ex\<newline>Whois Server: b.ex'') = Some (str ''a.ex'')"
  by (simp_all add: match_here_def example_env_def ascii_lower_def py_isspace_def)

lemma unat_of_char: "unat (of_char c :: byte) = of_char c"
proof -
  have "unat (of_nat (of_char c) :: byte) = of_char c mod 256"
    by (simp add: unat_of_nat)
  then show ?thesis
    by (simp add: of_nat_of_char)
qed

lemma query_example:
  assumes "map_of hosts srv = Some (reply (map of_char body))" and "\<forall>c\<in>set body. of_char c < (0x80::nat)"
  shows "whois_query_server (example_env h p hosts) q srv port t s =
           Some (Inr (str body), s\<lparr>calls := calls s @ [(q, srv, port, t)]\<rparr>)"
proof -
  have "\<forall>b\<in>set (map of_char body :: bytes). unat b < 0x80"
    using assms(2) by (auto simp: unat_of_char)
  then have "decode_utf8 Ignore (map of_char body) = Inr (map unat (map of_char body :: bytes))"
    by (rule decode_utf8_ascii)
  moreover have "map unat (map of_char body :: bytes) = str body"
    by (simp add: unat_of_char)
  ultimately show ?thesis
    using example_query_reply[OF assms(1)] by simp
qed

lemma find_example:
  assumes "map_of hosts (str ''whois.iana.org'') = Some (reply (map of_char ''whois: a.ex''))"
  shows "find_whois_server_for_tld (example_env h p hosts) tld t s =
           Some (Some (str ''a.ex''), s\<lparr>calls := calls s @ [(tld, str ''whois.iana.org'', 43, t)]\<rparr>)"
proof -
  have q: "whois_query_server (example_env h p hosts) tld (str ''whois.iana.org'')
             DEFAULT_WHOIS_PORT t s =
           Some (Inr (str ''whois: a.ex''),
                 s\<lparr>calls := calls s @ [(tld, str ''whois.iana.org'', 43, t)]\<rparr>)"
    using query_example[OF assms, of h p tld DEFAULT_WHOIS_PORT t s]
    by (simp add: DEFAULT_WHOIS_PORT_def)
  have st: "strip (example_env h p hosts) (str ''a.ex'') = str ''a.ex''"
    using strip_group(1)[OF search_whois_example[of h p hosts]] .
  show ?thesis
    unfolding find_whois_server_for_tld_def q
    using search_whois_example[of h p hosts] st by (simp del: list.map)
qed

lemma prepare_offline:
  "prepare f (example_env False p offline_hosts) (str ''ex.org'') None 8 start
     = Some (Inr (new_result (str ''ex.org''), str ''ex.org'', str ''whois.iana.org''),
             start\<lparr>calls := [(str ''org'', str ''whois.iana.org'', 43, 8)]\<rparr>)"
proof -
  let ?E = "example_env False p offline_hosts"
  let ?s1 = "start\<lparr>calls := [(str ''org'', str ''whois.iana.org'', 43, 8)]\<rparr>"
  have fo: "find_whois_server_for_tld ?E (str ''org'') 8 start = Some (None, ?s1)"
    using find_offline[of False p "str ''org''" 8 start] by (simp add: start_def)
  have rs: "resolve_server f ?E (str ''ex.org'') None 8 start = Some (str ''whois.iana.org'', ?s1)"
    using resolve_server_no_answer[of ?E "str ''ex.org''" 8 start ?s1] fo
      labels_example[of False p offline_hosts]
    by (cases f) (simp_all add: fallback_who_is_CLI_def fallback_whois_cli_def endswith_def)
  have tp: "try_pywhois f ?E (str ''ex.org'') None (new_result (str ''ex.org'')) start
              = (Inr (new_result (str ''ex.org'')), start)"
    by (cases f)
       (simp_all add: try_pywhois_who_is_CLI_def try_pywhois_whois_cli_def example_env_def)
  show ?thesis
    unfolding prepare_def strip_example
    using rs tp by (simp del: list.map add: Let_def)
qed

lemma prepare_referral_example:
  assumes "map_of hosts (str ''whois.iana.org'') = Some (reply (map of_char ''whois: a.ex''))"
  shows "prepare f (example_env False p hosts) (str ''ex.org'') None 8 start
     = Some (Inr (new_result (str ''ex.org''), str ''ex.org'', str ''a.ex''),
             start\<lparr>calls := [(str ''org'', str ''whois.iana.org'', 43, 8)]\<rparr>)"
proof -
  let ?E = "example_env False p hosts"
  let ?s1 = "start\<lparr>calls := [(str ''org'', str ''whois.iana.org'', 43, 8)]\<rparr>"
  have fi: "find_whois_server_for_tld ?E (str ''org'') 8 start = Some (Some (str ''a.ex''), ?s1)"
    using find_example[OF assms, of False p "str ''org''" 8 start] by (simp add: start_def)
  have rs: "resolve_server f ?E (str ''ex.org'') None 8 start = Some (str ''a.ex'', ?s1)"
    using resolve_server_answer[of ?E "str ''ex.org''" 8 start "str ''a.ex''" ?s1 f] fi
      labels_example[of False p hosts]
    by simp
  have tp: "try_pywhois f ?E (str ''ex.org'') None (new_result (str ''ex.org'')) start
              = (Inr (new_result (str ''ex.org'')), start)"
    by (cases f)
       (simp_all add: try_pywhois_who_is_CLI_def try_pywhois_whois_cli_def example_env_def)
  show ?thesis
    unfolding prepare_def strip_example
    using rs tp by (simp del: list.map add: Let_def)
qed

lemma smart_whois_referral_example:
  "smart_whois f (example_env False p referral_hosts) (str ''ex.org'') None 43 8 start
     = Some (\<lparr>query = str ''ex.org'', server_used = Some (str ''a.ex''),
              raw = Some (str ''Whois Server: b.ex''), error = None, parsed = None,
              raw_follow = Some (str ''Whois Server: c.ex''),
              server_used_follow = Some (str ''b.ex''), notes_list = None\<rparr>,
             start\<lparr>calls := [(str ''org'', str ''whois.iana.org'', 43, 8),
                              (str ''ex.org'', str ''a.ex'', 43, 8),
                              (str ''ex.org'', str ''b.ex'', 43, 8)]\<rparr>)"
proof -
  let ?E = "example_env False p referral_hosts"
  let ?s1 = "start\<lparr>calls := [(str ''org'', str ''whois.iana.org'', 43, 8)]\<rparr>"
  let ?s2 = "start\<lparr>calls := [(str ''org'', str ''whois.iana.org'', 43, 8),
                                (str ''ex.org'', str ''a.ex'', 43, 8)]\<rparr>"
  let ?s3 = "start\<lparr>calls := [(str ''org'', str ''whois.iana.org'', 43, 8),
                                (str ''ex.org'', str ''a.ex'', 43, 8),
                                (str ''ex.org'', str ''b.ex'', 43, 8)]\<rparr>"
  have prep: "prepare f ?E (str ''ex.org'') None 8 start
                = Some (Inr (new_result (str ''ex.org''), str ''ex.org'', str ''a.ex''), ?s1)"
    by (rule prepare_referral_example) (simp add: referral_hosts_def)
  have prim: "whois_query_server ?E (str ''ex.org'') (str ''a.ex'') 43 8 ?s1
                = Some (Inr (str ''Whois Server: b.ex''), ?s2)"
    using query_example[of referral_hosts "str ''a.ex''" "''Whois Server: b.ex''" False
        p "str ''ex.org''" 43 8 ?s1]
    by (simp add: referral_hosts_def start_def)
  have fol: "whois_query_server ?E (str ''ex.org'') (str ''b.ex'') 43 8 ?s2
               = Some (Inr (str ''Whois Server: c.ex''), ?s3)"
    using query_example[of referral_hosts "str ''b.ex''" "''Whois Server: c.ex''" False
        p "str ''ex.org''" 43 8 ?s2]
    by (simp add: referral_hosts_def start_def)
  have "smart_whois f ?E (str ''ex.org'') None 43 8 start
          = Some ((new_result (str ''ex.org''))\<lparr>server_used := Some (str ''a.ex''),
                         raw := Some (str ''Whois Server: b.ex''),
                         raw_follow := Some (str ''Whois Server: c.ex''),
                         server_used_follow := Some (str ''b.ex'')\<rparr>, ?s3)"
    unfolding smart_whois_after_primary[OF prep prim]
      search_referral_example(1)[of False p referral_hosts]
    using fol by simp
  then show ?thesis
    by (simp add: new_result_def)
qed

section \<open>The codec: what is dropped, what comes back\<close>

text \<open>Six-bit digits: how a code point splits into the payload bits of its bytes.\<close>

lemma unpack2:
  fixes a x :: nat
  assumes "x < 64"
  shows "(a * 64 + x) div 64 = a" "(a * 64 + x) mod 64 = x"
  using assms by simp_all

lemma unpack3:
  fixes a x y :: nat
  assumes "x < 64" "y < 64"
  shows "(a * 4096 + x * 64 + y) div 4096 = a" "(a * 4096 + x * 64 + y) div 64 mod 64 = x"
    "(a * 4096 + x * 64 + y) mod 64 = y"
proof -
  define m where "m = a * 64 + x"
  have e: "a * 4096 + x * 64 + y = m * 64 + y"
    by (simp add: m_def)
  have d: "(m * 64 + y) div 64 = m" and r: "(m * 64 + y) mod 64 = y"
    using assms(2) by simp_all
  show "(a * 4096 + x * 64 + y) mod 64 = y"
    unfolding e by (rule r)
  show "(a * 4096 + x * 64 + y) div 64 mod 64 = x"
    unfolding e d using assms(1) by (simp add: m_def)
  have "(m * 64 + y) div 4096 = (m * 64 + y) div 64 div 64"
    by (simp add: div_mult2_eq)
  then show "(a * 4096 + x * 64 + y) div 4096 = a"
    unfolding e d using assms(1) by (simp add: m_def)
qed

lemma unpack4:
  fixes a x y z :: nat
  assumes "x < 64" "y < 64" "z < 64"
  shows "(a * 262144 + x * 4096 + y * 64 + z) div 262144 = a"
    "(a * 262144 + x * 4096 + y * 64 + z) div 4096 mod 64 = x"
    "(a * 262144 + x * 4096 + y * 64 + z) div 64 mod 64 = y"
    "(a * 262144 + x * 4096 + y * 64 + z) mod 64 = z"
proof -
  define m where "m = a * 64 + x"
  have e: "a * 262144 + x * 4096 + y * 64 + z = m * 4096 + y * 64 + z"
    by (simp add: m_def)
  show "(a * 262144 + x * 4096 + y * 64 + z) mod 64 = z"
    unfolding e by (rule unpack3(3)[OF assms(2,3)])
  show "(a * 262144 + x * 4096 + y * 64 + z) div 64 mod 64 = y"
    unfolding e by (rule unpack3(2)[OF assms(2,3)])
  have d: "(m * 4096 + y * 64 + z) div 4096 = m"
    by (rule unpack3(1)[OF assms(2,3)])
  show "(a * 262144 + x * 4096 + y * 64 + z) div 4096 mod 64 = x"
    unfolding e d using assms(1) by (simp add: m_def)
  have "(m * 4096 + y * 64 + z) div 262144 = (m * 4096 + y * 64 + z) div 4096 div 64"
    by (simp add: div_mult2_eq)
  then show "(a * 262144 + x * 4096 + y * 64 + z) div 262144 = a"
    unfolding e d using assms(1) by (simp add: m_def)
qed

text \<open>A continuation byte is 0x80 plus six bits.\<close>

lemma is_cont_offset:
  assumes "is_cont b"
  obtains x where "unat b = 0x80 + x" "x < 64"
proof -
  have "unat b = 0x80 + (unat b - 0x80)" "unat b - 0x80 < 64"
    using assms by (auto simp: is_cont_def)
  then show thesis using that by blast
qed

lemma decode_step_cases:
  assumes "utf8_decode_step b rest = (Some cp, n)"
  obtains
    (one) "unat b < 0x80" "cp = unat b" "n = 1"
  | (two) b1 r where "0xC2 \<le> unat b" "unat b < 0xE0" "rest = b1 # r" "is_cont b1"
      "cp = (unat b - 0xC0) * 64 + (unat b1 - 0x80)" "n = 2"
  | (three) b1 b2 r where "0xE0 \<le> unat b" "unat b < 0xF0" "rest = b1 # b2 # r"
      "second_ok (unat b) b1" "is_cont b2"
      "cp = (unat b - 0xE0) * 4096 + (unat b1 - 0x80) * 64 + (unat b2 - 0x80)" "n = 3"
  | (four) b1 b2 b3 r where "0xF0 \<le> unat b" "unat b < 0xF5" "rest = b1 # b2 # b3 # r"
      "second_ok (unat b) b1" "is_cont b2" "is_cont b3"
      "cp = (unat b - 0xF0) * 262144 + (unat b1 - 0x80) * 4096 + (unat b2 - 0x80) * 64
            + (unat b3 - 0x80)" "n = 4"
  using assms
  by (auto simp: Let_def split: if_splits list.splits)


lemma decode_step_encode:
  assumes "utf8_decode_step b rest = (Some cp, n)"
  shows "utf8_encode_cp cp = Some (take n (b # rest)) \<and> 1 \<le> n \<and> n \<le> Suc (length rest)
         \<and> is_scalar cp"
  using assms
proof (cases rule: decode_step_cases)
  case one
  then show ?thesis
    by (simp add: utf8_encode_cp_def is_scalar_def is_surrogate_def)
next
  case (two b1 r)
  obtain x where x: "unat b1 = 0x80 + x" "x < 64"
    using two(4) by (rule is_cont_offset)
  define a where "a = unat b - 0xC0"
  have a: "unat b = 0xC0 + a" "2 \<le> a" "a < 32"
    using two(1,2) by (auto simp: a_def)
  have cp: "cp = a * 64 + x"
    using two(5) x(1) by (simp add: a_def)
  have r: "0x80 \<le> cp" "cp < 0x800"
    using a x(2) by (simp_all add: cp)
  have "utf8_encode_cp cp = Some [of_nat (0xC0 + cp div 64), of_nat (0x80 + cp mod 64)]"
    using r by (simp add: utf8_encode_cp_def)
  also have "\<dots> = Some [of_nat (unat b), of_nat (unat b1)]"
    unfolding cp unpack2[OF x(2)] a(1) x(1) ..
  finally show ?thesis
    using r two(3,6) by (simp add: is_scalar_def is_surrogate_def)
next
  case (three b1 b2 r)
  have c1: "is_cont b1"
    using three(4) by (simp add: second_ok_def)
  obtain x where x: "unat b1 = 0x80 + x" "x < 64"
    using c1 by (rule is_cont_offset)
  obtain y where y: "unat b2 = 0x80 + y" "y < 64"
    using three(5) by (rule is_cont_offset)
  define a where "a = unat b - 0xE0"
  have a: "unat b = 0xE0 + a" "a < 16"
    using three(1,2) by (auto simp: a_def)
  have lo: "a = 0 \<Longrightarrow> 32 \<le> x" and sur: "a = 13 \<Longrightarrow> x < 32"
    using three(4) a(1) x(1) by (auto simp: second_ok_def split: if_splits)
  have cp: "cp = a * 4096 + x * 64 + y"
    using three(6) x(1) y(1) by (simp add: a_def)
  have r1: "0x800 \<le> cp"
    using lo x(2) y(2) by (cases "a = 0") (simp_all add: cp)
  have r2: "cp < 0x10000"
    using a(2) x(2) y(2) by (simp add: cp)
  have r3: "\<not> is_surrogate cp"
  proof -
    have "cp < 0xD800 \<or> 0xDFFF < cp"
    proof (cases "a = 13")
      case True
      then show ?thesis using sur x(2) y(2) by (simp add: cp)
    next
      case False
      then have "a < 13 \<or> 14 \<le> a" by arith
      then show ?thesis using x(2) y(2) by (auto simp: cp)
    qed
    then show ?thesis by (auto simp: is_surrogate_def)
  qed
  have "utf8_encode_cp cp = Some [of_nat (0xE0 + cp div 4096), of_nat (0x80 + cp div 64 mod 64),
                                  of_nat (0x80 + cp mod 64)]"
    using r1 r2 r3 by (simp add: utf8_encode_cp_def)
  also have "\<dots> = Some [of_nat (unat b), of_nat (unat b1), of_nat (unat b2)]"
    unfolding cp unpack3[OF x(2) y(2)] a(1) x(1) y(1) ..
  finally show ?thesis
    using r2 r3 three(3,7) by (simp add: is_scalar_def)
next
  case (four b1 b2 b3 r)
  have c1: "is_cont b1"
    using four(4) by (simp add: second_ok_def)
  obtain x where x: "unat b1 = 0x80 + x" "x < 64"
    using c1 by (rule is_cont_offset)
  obtain y where y: "unat b2 = 0x80 + y" "y < 64"
    using four(5) by (rule is_cont_offset)
  obtain z where z: "unat b3 = 0x80 + z" "z < 64"
    using four(6) by (rule is_cont_offset)
  define a where "a = unat b - 0xF0"
  have a: "unat b = 0xF0 + a" "a < 5"
    using four(1,2) by (auto simp: a_def)
  have lo: "a = 0 \<Longrightarrow> 16 \<le> x" and hi: "a = 4 \<Longrightarrow> x < 16"
    using four(4) a(1) x(1) by (auto simp: second_ok_def split: if_splits)
  have cp: "cp = a * 262144 + x * 4096 + y * 64 + z"
    using four(7) x(1) y(1) z(1) by (simp add: a_def)
  have r1: "0x10000 \<le> cp"
    using lo x(2) y(2) z(2) by (cases "a = 0") (simp_all add: cp)
  have r2: "cp < 0x110000"
  proof (cases "a = 4")
    case True
    then show ?thesis using hi y(2) z(2) by (simp add: cp)
  next
    case False
    then have "a < 4" using a(2) by arith
    then show ?thesis using x(2) y(2) z(2) by (simp add: cp)
  qed
  have "utf8_encode_cp cp = Some [of_nat (0xF0 + cp div 262144), of_nat (0x80 + cp div 4096 mod 64),
                                  of_nat (0x80 + cp div 64 mod 64), of_nat (0x80 + cp mod 64)]"
    using r1 r2 by (simp add: utf8_encode_cp_def)
  also have "\<dots> = Some [of_nat (unat b), of_nat (unat b1), of_nat (unat b2), of_nat (unat b3)]"
    unfolding cp unpack4[OF x(2) y(2) z(2)] a(1) x(1) y(1) z(1) ..
  finally show ?thesis
    using r1 r2 four(3,8) by (simp add: is_scalar_def is_surrogate_def)
qed


lemma unat_byte:
  assumes "k < 256"
  shows "unat (of_nat k :: byte) = k"
  using assms by (simp add: unat_of_nat)

lemma digits2:
  fixes cp :: nat
  obtains a x where "cp = a * 64 + x" "x < 64"
proof -
  have "cp = cp div 64 * 64 + cp mod 64" "cp mod 64 < 64"
    by simp_all
  then show thesis using that by blast
qed

lemma digits3:
  fixes cp :: nat
  obtains a x y where "cp = a * 4096 + x * 64 + y" "x < 64" "y < 64"
proof -
  obtain m y where m: "cp = m * 64 + y" "y < 64"
    by (rule digits2)
  obtain a x where a: "m = a * 64 + x" "x < 64"
    by (rule digits2)
  have "cp = a * 4096 + x * 64 + y"
    unfolding m(1) a(1) by simp
  then show thesis using that a(2) m(2) by blast
qed

lemma digits4:
  fixes cp :: nat
  obtains a x y z where "cp = a * 262144 + x * 4096 + y * 64 + z" "x < 64" "y < 64" "z < 64"
proof -
  obtain m y z where m: "cp = m * 4096 + y * 64 + z" "y < 64" "z < 64"
    by (rule digits3)
  obtain a x where a: "m = a * 64 + x" "x < 64"
    by (rule digits2)
  have "cp = a * 262144 + x * 4096 + y * 64 + z"
    unfolding m(1) a(1) by simp
  then show thesis using that a(2) m(2,3) by blast
qed

lemma encode_decode_step:
  assumes "utf8_encode_cp cp = Some (b # bs)"
  shows "utf8_decode_step b (bs @ rest) = (Some cp, Suc (length bs))"
proof -
  consider (one) "cp < 0x80"
    | (two) "0x80 \<le> cp" "cp < 0x800"
    | (three) "0x800 \<le> cp" "cp < 0x10000" "\<not> is_surrogate cp"
    | (four) "0x10000 \<le> cp" "cp < 0x110000"
    using assms by (auto simp: utf8_encode_cp_def split: if_splits)
  then show ?thesis
  proof cases
    case one
    then have "b = of_nat cp" "bs = []"
      using assms by (simp_all add: utf8_encode_cp_def)
    moreover have "unat (of_nat cp :: byte) = cp"
      using one by (simp add: unat_byte)
    ultimately show ?thesis
      using one by simp
  next
    case two
    obtain a x where d: "cp = a * 64 + x" "x < 64"
      by (rule digits2)
    have a: "2 \<le> a" "a < 32"
      using two d by auto
    have e: "b = of_nat (0xC0 + a)" "bs = [of_nat (0x80 + x)]"
      using assms two unpack2[OF d(2), of a]
      by (simp_all add: utf8_encode_cp_def d(1))
    have u: "unat (0xC0 + of_nat a :: byte) = 0xC0 + a" "unat (0x80 + of_nat x :: byte) = 0x80 + x"
      using a d(2) unat_byte[of "0xC0 + a"] unat_byte[of "0x80 + x"] by simp_all
    show ?thesis
      unfolding e
      using a d(2) by (simp add: u is_cont_def d(1))
  next
    case three
    obtain a x y where d: "cp = a * 4096 + x * 64 + y" "x < 64" "y < 64"
      by (rule digits3)
    have a: "a < 16"
      using three(2) d by auto
    have lo: "a = 0 \<Longrightarrow> 32 \<le> x"
      using three(1) d by auto
    have sur: "a = 13 \<Longrightarrow> x < 32"
      using three(3) d by (auto simp: is_surrogate_def)
    have e: "b = of_nat (0xE0 + a)" "bs = [of_nat (0x80 + x), of_nat (0x80 + y)]"
      using assms three unpack3[OF d(2,3), of a]
      by (simp_all add: utf8_encode_cp_def d(1))
    have u: "unat (0xE0 + of_nat a :: byte) = 0xE0 + a"
      "unat (0x80 + of_nat x :: byte) = 0x80 + x" "unat (0x80 + of_nat y :: byte) = 0x80 + y"
      using a d(2,3) unat_byte[of "0xE0 + a"] unat_byte[of "0x80 + x"] unat_byte[of "0x80 + y"]
      by simp_all
    have s: "second_ok (0xE0 + a) (of_nat (0x80 + x))"
      using a d(2) lo sur by (auto simp: second_ok_def is_cont_def u)
    show ?thesis
      unfolding e
      using a d(2,3) s by (simp add: u is_cont_def d(1))
  next
    case four
    obtain a x y z where d: "cp = a * 262144 + x * 4096 + y * 64 + z" "x < 64" "y < 64" "z < 64"
      by (rule digits4)
    have a: "a < 5"
      using four(2) d by auto
    have lo: "a = 0 \<Longrightarrow> 16 \<le> x"
      using four(1) d by auto
    have hi: "a = 4 \<Longrightarrow> x < 16"
      using four(2) d by auto
    have e: "b = of_nat (0xF0 + a)"
      "bs = [of_nat (0x80 + x), of_nat (0x80 + y), of_nat (0x80 + z)]"
      using assms four unpack4[OF d(2,3,4), of a]
      by (simp_all add: utf8_encode_cp_def d(1))
    have u: "unat (0xF0 + of_nat a :: byte) = 0xF0 + a"
      "unat (0x80 + of_nat x :: byte) = 0x80 + x" "unat (0x80 + of_nat y :: byte) = 0x80 + y"
      "unat (0x80 + of_nat z :: byte) = 0x80 + z"
      using a d(2,3,4) unat_byte[of "0xF0 + a"] unat_byte[of "0x80 + x"] unat_byte[of "0x80 + y"]
        unat_byte[of "0x80 + z"]
      by simp_all
    have s: "second_ok (0xF0 + a) (of_nat (0x80 + x))"
      using a d(2) lo hi by (auto simp: second_ok_def is_cont_def u)
    show ?thesis
      unfolding e
      using a d(2,3,4) s by (simp add: u is_cont_def d(1))
  qed
qed


lemma decode_steps_ignore: "decode_utf8_steps Ignore rs = Inr (List.map_filter id rs)"
proof (induction rs)
  case Nil
  show ?case by (simp add: List.map_filter_simps)
next
  case (Cons r rs)
  then show ?case by (cases r) (simp_all add: List.map_filter_simps)
qed

lemma decode_steps_strict:
  assumes "decode_utf8_steps Strict rs = Inr s"
  shows "rs = map Some s"
  using assms
proof (induction rs arbitrary: s)
  case Nil
  then show ?case by simp
next
  case (Cons r rs)
  then show ?case by (cases r) (auto split: sum.splits)
qed

lemma map_filter_Some: "List.map_filter id (map Some s) = s"
  by (induction s) (simp_all add: List.map_filter_simps)

lemma scan_encode:
  assumes "utf8_scan bs = map Some s"
  shows "encode_utf8 h s = Inr bs \<and> list_all is_scalar s"
  using assms
proof (induction bs arbitrary: s rule: utf8_scan.induct)
  case 1
  then show ?case by simp
next
  case (2 b bs)
  obtain r n where st: "utf8_decode_step b bs = (r, n)"
    by fastforce
  from "2.prems" st obtain cp s' where s: "s = cp # s'" "r = Some cp"
    "utf8_scan (drop (n - 1) bs) = map Some s'"
    by (cases s) auto
  have ih: "encode_utf8 h s' = Inr (drop (n - 1) bs) \<and> list_all is_scalar s'"
    using "2.IH"[OF st[symmetric] s(3)] .
  have e: "utf8_encode_cp cp = Some (take n (b # bs))" "1 \<le> n" "is_scalar cp"
    using decode_step_encode[of b bs cp n] st s(2) by simp_all
  obtain k where k: "n = Suc k"
    using e(2) by (cases n) simp_all
  have "take n (b # bs) @ drop (n - 1) bs = b # bs"
    by (simp add: k)
  then show ?case
    using ih e by (simp add: s(1))
qed

lemma encode_scalar:
  assumes "is_scalar cp"
  shows "\<exists>b bs. utf8_encode_cp cp = Some (b # bs)"
  using assms by (auto simp: utf8_encode_cp_def is_scalar_def)

lemma encode_scan:
  assumes "list_all is_scalar s" and "encode_utf8 h s = Inr bs"
  shows "utf8_scan bs = map Some s"
  using assms
proof (induction s arbitrary: bs)
  case Nil
  then show ?case by simp
next
  case (Cons cp s)
  obtain b bs1 where "utf8_encode_cp cp = Some (b # bs1)"
    using Cons.prems(1) encode_scalar[of cp] by auto
  then obtain enc where enc: "utf8_encode_cp cp = Some enc" and b: "enc = b # bs1"
    by simp
  obtain r where r: "encode_utf8 h s = Inr r" "bs = enc @ r"
    using Cons.prems(2) enc by (auto split: sum.splits)
  have ih: "utf8_scan r = map Some s"
    using Cons.IH[OF _ r(1)] Cons.prems(1) by simp
  have "utf8_decode_step b (bs1 @ r) = (Some cp, Suc (length bs1))"
    using encode_decode_step[of cp b bs1 r] enc b by simp
  then show ?case
    using ih by (simp add: r(2) b)
qed

lemma decode_valid:
  assumes "decode_utf8 Strict bs = Inr s"
  shows "decode_utf8 Ignore bs = Inr s \<and> encode_utf8 Strict s = Inr bs \<and> list_all is_scalar s"
proof -
  have sc: "utf8_scan bs = map Some s"
    using assms decode_steps_strict by (simp add: decode_utf8_def)
  then show ?thesis
    using scan_encode[OF sc, of Strict]
    by (simp add: decode_utf8_def decode_steps_ignore map_filter_Some)
qed

section \<open>Transport\<close>

text \<open>
  Claim C3, as amended. Whatever bytes a connected server sends before it closes,
  \<^verbatim>\<open>whois_query_server\<close> returns a text and does not raise: the text holds the code points of
  the well-formed sequences among the concatenated bytes, in order, and nothing for an
  ill-formed range (\<^verbatim>\<open>errors='ignore'\<close> drops it; no replacement character is put in). Where
  the bytes are valid UTF-8, that is, where strict decoding accepts them, the text is the
  strict decoding, and encoding it gives the bytes back. Every encoding of a text of scalar
  values is valid in that sense and is decoded to that text.
\<close>

theorem transport_decodes_dropping:
  assumes enc: "encode_utf8 Ignore (q @ [0x0D, 0x0A]) = Inr payload"
      and net: "network env server port timeout payload (world s) = (Connected rcv, w)"
      and rl: "recv_loop rcv 0 [] = Some (Inr data_parts)"
  shows "whois_query_server env q server port timeout s
           = Some (Inr (List.map_filter id (utf8_scan (concat data_parts))),
                   s\<lparr>calls := calls s @ [(q, server, port, timeout)], world := w\<rparr>)
         \<and> (\<forall>valid. decode_utf8 Strict (concat data_parts) = Inr valid \<longrightarrow>
               List.map_filter id (utf8_scan (concat data_parts)) = valid
               \<and> encode_utf8 Strict valid = Inr (concat data_parts))
         \<and> (\<forall>original. list_all is_scalar original
                \<and> encode_utf8 Strict original = Inr (concat data_parts) \<longrightarrow>
               List.map_filter id (utf8_scan (concat data_parts)) = original)"
proof -
  have d: "decode_utf8 Ignore (concat data_parts)
             = Inr (List.map_filter id (utf8_scan (concat data_parts)))"
    by (simp add: decode_utf8_def decode_steps_ignore)
  have 1: "whois_query_server env q server port timeout s
           = Some (Inr (List.map_filter id (utf8_scan (concat data_parts))),
                   s\<lparr>calls := calls s @ [(q, server, port, timeout)], world := w\<rparr>)"
    using enc net rl d by (simp add: whois_query_server_def)
  have 2: "List.map_filter id (utf8_scan (concat data_parts)) = valid
           \<and> encode_utf8 Strict valid = Inr (concat data_parts)"
    if "decode_utf8 Strict (concat data_parts) = Inr valid" for valid
    using decode_valid[OF that] d by simp
  have 3: "List.map_filter id (utf8_scan (concat data_parts)) = original"
    if "list_all is_scalar original \<and> encode_utf8 Strict original = Inr (concat data_parts)"
    for original
    using encode_scan[of original Strict "concat data_parts"] that
    by (simp add: map_filter_Some)
  show ?thesis
    using 1 2 3 by blast
qed

theorem transport_decodes_dropping_witness:
  "whois_query_server (example_env False pywhois_fails garbled_hosts) (str ''ex.org'') (str ''a.ex'')
     43 8 start
     = Some (Inr [0x41, 0xE9], start\<lparr>calls := [(str ''ex.org'', str ''a.ex'', 43, 8)]\<rparr>)
   \<and> whois_query_server (example_env False pywhois_fails garbled_hosts) (str ''ex.org'')
        (str ''b.ex'') 43 8 start
     = Some (Inr [0xE9], start\<lparr>calls := [(str ''ex.org'', str ''b.ex'', 43, 8)]\<rparr>)
   \<and> encode_utf8 Strict [0xE9] = Inr [0xC3, 0xA9]"
proof -
  let ?E = "example_env False pywhois_fails garbled_hosts"
  obtain payload where enc: "encode_utf8 Ignore (str ''ex.org'' @ [0x0D, 0x0A]) = Inr payload"
    using encode_ignore_total by blast
  have na: "network ?E (str ''a.ex'') 43 8 payload (world start)
              = (Connected (\<lambda>n. if n = 0 then Inr [0x41, 0xFF, 0xC3, 0xA9] else Inr []), ())"
    by (simp add: example_env_def garbled_hosts_def reply_def)
  have nb: "network ?E (str ''b.ex'') 43 8 payload (world start)
              = (Connected (\<lambda>n. if n = 0 then Inr [0xC3, 0xA9] else Inr []), ())"
    by (simp add: example_env_def garbled_hosts_def reply_def)
  have ra: "recv_loop (\<lambda>n. if n = 0 then Inr [0x41, 0xFF, 0xC3, 0xA9] else Inr []) 0 []
              = Some (Inr [[0x41, 0xFF, 0xC3, 0xA9]])"
    using recv_loop_reply[of "[0x41, 0xFF, 0xC3, 0xA9]"] by simp
  have rb: "recv_loop (\<lambda>n. if n = 0 then Inr [0xC3, 0xA9] else Inr []) 0 []
              = Some (Inr [[0xC3, 0xA9]])"
    using recv_loop_reply[of "[0xC3, 0xA9]"] by simp
  have sa: "utf8_scan [0x41, 0xFF, 0xC3, 0xA9] = [Some 0x41, None, Some 0xE9]"
    by (simp add: is_cont_def)
  have sb: "utf8_scan [0xC3, 0xA9] = [Some 0xE9]"
    by (simp add: is_cont_def)
  have vb: "decode_utf8 Strict (concat [[0xC3, 0xA9]]) = Inr [0xE9]"
    unfolding decode_utf8_def by (simp add: is_cont_def)
  have a: "whois_query_server ?E (str ''ex.org'') (str ''a.ex'') 43 8 start
             = Some (Inr (List.map_filter id (utf8_scan (concat [[0x41, 0xFF, 0xC3, 0xA9]]))),
                     start\<lparr>calls := calls start @ [(str ''ex.org'', str ''a.ex'', 43, 8)],
                            world := ()\<rparr>)"
    using transport_decodes_dropping[OF enc na ra] by (rule conjunct1)
  have b: "whois_query_server ?E (str ''ex.org'') (str ''b.ex'') 43 8 start
             = Some (Inr (List.map_filter id (utf8_scan (concat [[0xC3, 0xA9]]))),
                     start\<lparr>calls := calls start @ [(str ''ex.org'', str ''b.ex'', 43, 8)],
                            world := ()\<rparr>)"
    and v: "\<forall>valid. decode_utf8 Strict (concat [[0xC3, 0xA9]]) = Inr valid \<longrightarrow>
               List.map_filter id (utf8_scan (concat [[0xC3, 0xA9]])) = valid
               \<and> encode_utf8 Strict valid = Inr (concat [[0xC3, 0xA9]])"
    using transport_decodes_dropping[OF enc nb rb] by blast+
  have e: "encode_utf8 Strict [0xE9] = Inr (concat [[0xC3, 0xA9]])"
    using v vb by blast
  have ma: "List.map_filter id (utf8_scan (concat [[0x41, 0xFF, 0xC3, 0xA9]])) = [0x41, 0xE9]"
    using sa by (simp add: List.map_filter_simps)
  have mb: "List.map_filter id (utf8_scan (concat [[0xC3, 0xA9]])) = [0xE9]"
    using sb by (simp add: List.map_filter_simps)
  show ?thesis
    using a b e unfolding ma mb by (simp add: start_def)
qed

text \<open>
  The claim as written has invalid sequences replaced. The answer of \<^verbatim>\<open>a.ex\<close> holds the byte
  0xFF between two well-formed sequences: decoding with \<^verbatim>\<open>errors='replace'\<close> puts U+FFFD
  there, \<^verbatim>\<open>whois_query_server\<close> returns the text without it.
\<close>

theorem transport_decodes_dropping_counterexample:
  "decode_utf8 Replace [0x41, 0xFF, 0xC3, 0xA9] = Inr [0x41, 0xFFFD, 0xE9]
   \<and> whois_query_server (example_env False pywhois_fails garbled_hosts) (str ''ex.org'')
        (str ''a.ex'') 43 8 start
       = Some (Inr [0x41, 0xE9], start\<lparr>calls := [(str ''ex.org'', str ''a.ex'', 43, 8)]\<rparr>)"
proof -
  have sa: "utf8_scan [0x41, 0xFF, 0xC3, 0xA9] = [Some 0x41, None, Some 0xE9]"
    by (simp add: is_cont_def)
  have "decode_utf8 Ignore [0x41, 0xFF, 0xC3, 0xA9] = Inr [0x41, 0xE9]"
    unfolding decode_utf8_def sa by simp
  then have "whois_query_server (example_env False pywhois_fails garbled_hosts) (str ''ex.org'')
        (str ''a.ex'') 43 8 start
       = Some (Inr [0x41, 0xE9], start\<lparr>calls := [(str ''ex.org'', str ''a.ex'', 43, 8)]\<rparr>)"
    using example_query_reply[of garbled_hosts "str ''a.ex''" "[0x41, 0xFF, 0xC3, 0xA9]"
        "[0x41, 0xE9]" False pywhois_fails "str ''ex.org''" 43 8 start]
    by (simp add: garbled_hosts_def start_def)
  moreover have "decode_utf8 Replace [0x41, 0xFF, 0xC3, 0xA9] = Inr [0x41, 0xFFFD, 0xE9]"
    unfolding decode_utf8_def sa by simp
  ultimately show ?thesis
    by simp
qed

section \<open>Discovery and the choice of the server\<close>

text \<open>
  Claim C7. \<^verbatim>\<open>find_whois_server_for_tld\<close> never propagates a network failure: when the query
  to the root registry server raises, the function returns \<^verbatim>\<open>None\<close> (with the state the failed
  query left), and its caller, for a domain of at least two labels and no override, goes on
  with the static fallback of its file instead of failing.
\<close>

theorem discovery_failure_swallowed:
  assumes "whois_query_server env tld (str ''whois.iana.org'') DEFAULT_WHOIS_PORT timeout s
             = Some (Inl e, s')"
  shows "find_whois_server_for_tld env tld timeout s = Some (None, s') \<and>
         (2 \<le> length (split_dot (u_lower env domain)) \<and> last (split_dot (u_lower env domain)) = tld
          \<longrightarrow> resolve_server Who_is_CLI env domain None timeout s
                = Some (fallback_who_is_CLI tld, s')
            \<and> resolve_server Whois_cli env domain None timeout s
                = Some (fallback_whois_cli domain tld, s'))"
proof -
  have f: "find_whois_server_for_tld env tld timeout s = Some (None, s')"
    using assms by (simp del: list.map add: find_whois_server_for_tld_def)
  show ?thesis
    using f
    by (simp del: list.map add: resolve_server_who_is_CLI_def resolve_server_whois_cli_def Let_def)
qed

theorem discovery_failure_swallowed_witness:
  "find_whois_server_for_tld (example_env False pywhois_fails offline_hosts) (str ''com'') 8 start
     = Some (None, start\<lparr>calls := [(str ''com'', str ''whois.iana.org'', 43, 8)]\<rparr>)
   \<and> resolve_server Who_is_CLI (example_env False pywhois_fails offline_hosts) (str ''example.com'')
        None 8 start
     = Some (str ''whois.verisign-grs.com'',
             start\<lparr>calls := [(str ''com'', str ''whois.iana.org'', 43, 8)]\<rparr>)
   \<and> resolve_server Whois_cli (example_env False pywhois_fails offline_hosts) (str ''example.com'')
        None 8 start
     = Some (str ''whois.verisign-grs.com'',
             start\<lparr>calls := [(str ''com'', str ''whois.iana.org'', 43, 8)]\<rparr>)"
proof -
  let ?E = "example_env False pywhois_fails offline_hosts"
  have q: "whois_query_server ?E (str ''com'') (str ''whois.iana.org'') DEFAULT_WHOIS_PORT 8 start
             = Some (Inl (Exn (str ''Connection refused'')),
                     start\<lparr>calls := [(str ''com'', str ''whois.iana.org'', 43, 8)]\<rparr>)"
    using example_query_refused[of offline_hosts "str ''whois.iana.org''" False pywhois_fails
        "str ''com''" DEFAULT_WHOIS_PORT 8 start]
    by (simp add: offline_hosts_def start_def DEFAULT_WHOIS_PORT_def)
  have p: "2 \<le> length (split_dot (u_lower ?E (str ''example.com'')))
           \<and> last (split_dot (u_lower ?E (str ''example.com''))) = str ''com''"
    by (simp add: example_env_def ascii_lower_def)
  show ?thesis
    using discovery_failure_swallowed[OF q, of "str ''example.com''"] p
    by (simp add: fallback_who_is_CLI_def fallback_whois_cli_def)
qed

text \<open>
  Claim C8. A domain whose lowercased text splits at the dots into fewer than two labels,
  with no override: \<^verbatim>\<open>server_to_use\<close> is \<^verbatim>\<open>whois.iana.org\<close> and the state is the one before,
  so no discovery query was made. In \<^verbatim>\<open>smart_whois\<close>, when the function reaches the primary
  query, that query goes to \<^verbatim>\<open>whois.iana.org\<close> and no query has been logged before it.
\<close>

theorem short_domain_uses_root:
  assumes "length (split_dot (u_lower env (strip env domain0))) < 2"
  shows "resolve_server f env (strip env domain0) None timeout s = Some (str ''whois.iana.org'', s)
         \<and> (prepare f env domain0 None timeout s = Some (Inr (out0, domain, srv), s1)
            \<longrightarrow> srv = str ''whois.iana.org'' \<and> calls s1 = calls s)"
proof -
  have r: "resolve_server f env (strip env domain0) None timeout sa = Some (str ''whois.iana.org'', sa)"
    for sa
    using assms
    by (cases f)
       (simp_all del: list.map add: resolve_server_who_is_CLI_def resolve_server_whois_cli_def Let_def)
  have c: "calls sa = calls s"
    if "try_pywhois f env (strip env domain0) None (new_result (strip env domain0)) s = (x, sa)"
    for x sa
    using that
    by (cases f)
       (auto simp del: list.map simp: try_pywhois_who_is_CLI_def try_pywhois_whois_cli_def
          split: if_splits prod.splits sum.splits)
  show ?thesis
    using r c
    by (auto simp del: list.map simp: prepare_def Let_def split: prod.splits sum.splits)
qed

theorem short_domain_uses_root_witness:
  "resolve_server Whois_cli (example_env False pywhois_fails offline_hosts)
     (strip (example_env False pywhois_fails offline_hosts) (str '' com '')) None 8 start
     = Some (str ''whois.iana.org'', start)
   \<and> prepare Whois_cli (example_env False pywhois_fails offline_hosts) (str '' com '') None 8 start
     = Some (Inr (new_result (str ''com''), str ''com'', str ''whois.iana.org''), start)"
proof -
  let ?E = "example_env False pywhois_fails offline_hosts"
  have st: "strip ?E (str '' com '') = str ''com''"
    by (simp add: strip_def example_env_def py_isspace_def)
  have h: "length (split_dot (u_lower ?E (strip ?E (str '' com '')))) < 2"
    unfolding st by (simp add: example_env_def ascii_lower_def)
  have p: "prepare Whois_cli ?E (str '' com '') None 8 start
             = Some (Inr (new_result (str ''com''), str ''com'', str ''whois.iana.org''), start)"
    unfolding prepare_def st
    by (simp add: try_pywhois_whois_cli_def resolve_server_whois_cli_def example_env_def
        ascii_lower_def Let_def)
  show ?thesis
    using short_domain_uses_root[OF h, of Whois_cli 8 start "new_result (str ''com'')"
        "str ''com''" "str ''whois.iana.org''" start] p
    by simp
qed

text \<open>
  Claim C2, as amended. A domain of at least two labels, no override, and a discovery that
  returned no server (the query failed, or its answer has no \<^verbatim>\<open>whois:\<close> token): the server is
  \<^verbatim>\<open>whois.verisign-grs.com\<close> when the last lowercased label is \<^verbatim>\<open>com\<close> or \<^verbatim>\<open>net\<close>; otherwise, in
  \<^verbatim>\<open>whois_cli.py\<close>, it is \<^verbatim>\<open>whois.pandi.or.id\<close> when that label is \<^verbatim>\<open>id\<close> or the domain ends in
  \<^verbatim>\<open>.sch.id\<close>; in every other case it is \<^verbatim>\<open>whois.iana.org\<close>. The one query made on the way
  is the discovery, to \<^verbatim>\<open>whois.iana.org\<close> with the last label as its text.
\<close>

theorem static_fallback:
  assumes "2 \<le> length (split_dot (u_lower env domain))"
      and "tld = last (split_dot (u_lower env domain))"
      and "find_whois_server_for_tld env tld timeout s = Some (None, s')"
  shows "resolve_server f env domain None timeout s =
           Some (if tld = str ''com'' \<or> tld = str ''net'' then str ''whois.verisign-grs.com''
                 else if f = Whois_cli \<and> (tld = str ''id'' \<or> endswith domain (str ''.sch.id''))
                 then str ''whois.pandi.or.id''
                 else str ''whois.iana.org'', s')
         \<and> calls s' = calls s @ [(tld, str ''whois.iana.org'', DEFAULT_WHOIS_PORT, timeout)]"
  using resolve_server_no_answer[of env domain timeout s s'] assms
    find_whois_server_calls[OF assms(3)]
  by (cases f) (simp_all del: list.map add: fallback_who_is_CLI_def fallback_whois_cli_def)

theorem static_fallback_witness:
  "resolve_server Who_is_CLI (example_env False pywhois_fails offline_hosts) (str ''example.net'')
     None 8 start
     = Some (str ''whois.verisign-grs.com'',
             start\<lparr>calls := [(str ''net'', str ''whois.iana.org'', 43, 8)]\<rparr>)
   \<and> resolve_server Who_is_CLI (example_env False pywhois_fails offline_hosts) (str ''example.org'')
        None 8 start
     = Some (str ''whois.iana.org'',
             start\<lparr>calls := [(str ''org'', str ''whois.iana.org'', 43, 8)]\<rparr>)"
proof -
  let ?E = "example_env False pywhois_fails offline_hosts"
  have n: "2 \<le> length (split_dot (u_lower ?E (str ''example.net'')))"
          "str ''net'' = last (split_dot (u_lower ?E (str ''example.net'')))"
    by (simp_all add: example_env_def ascii_lower_def)
  have or: "2 \<le> length (split_dot (u_lower ?E (str ''example.org'')))"
          "str ''org'' = last (split_dot (u_lower ?E (str ''example.org'')))"
    by (simp_all add: example_env_def ascii_lower_def)
  have fn: "find_whois_server_for_tld ?E (str ''net'') 8 start
              = Some (None, start\<lparr>calls := [(str ''net'', str ''whois.iana.org'', 43, 8)]\<rparr>)"
    using find_offline[of False pywhois_fails "str ''net''" 8 start] by (simp add: start_def)
  have fo: "find_whois_server_for_tld ?E (str ''org'') 8 start
              = Some (None, start\<lparr>calls := [(str ''org'', str ''whois.iana.org'', 43, 8)]\<rparr>)"
    using find_offline[of False pywhois_fails "str ''org''" 8 start] by (simp add: start_def)
  show ?thesis
    using static_fallback[OF n fn, of Who_is_CLI] static_fallback[OF or fo, of Who_is_CLI]
    by simp
qed

text \<open>
  The claim as written gives \<^verbatim>\<open>whois.iana.org\<close> for every last label other than \<^verbatim>\<open>com\<close> and
  \<^verbatim>\<open>net\<close>. In \<^verbatim>\<open>whois_cli.py\<close> the domain \<^verbatim>\<open>example.id\<close>, with a root registry that does not
  answer, is sent to \<^verbatim>\<open>whois.pandi.or.id\<close>.
\<close>

theorem static_fallback_counterexample:
  "2 \<le> length (split_dot (u_lower (example_env False pywhois_fails offline_hosts) (str ''example.id'')))
   \<and> last (split_dot (u_lower (example_env False pywhois_fails offline_hosts) (str ''example.id'')))
       = str ''id''
   \<and> str ''id'' \<noteq> str ''com'' \<and> str ''id'' \<noteq> str ''net''
   \<and> find_whois_server_for_tld (example_env False pywhois_fails offline_hosts) (str ''id'') 8 start
       = Some (None, start\<lparr>calls := [(str ''id'', str ''whois.iana.org'', 43, 8)]\<rparr>)
   \<and> resolve_server Whois_cli (example_env False pywhois_fails offline_hosts) (str ''example.id'')
        None 8 start
       = Some (str ''whois.pandi.or.id'',
               start\<lparr>calls := [(str ''id'', str ''whois.iana.org'', 43, 8)]\<rparr>)
   \<and> str ''whois.pandi.or.id'' \<noteq> str ''whois.iana.org''"
proof -
  let ?E = "example_env False pywhois_fails offline_hosts"
  have n: "2 \<le> length (split_dot (u_lower ?E (str ''example.id'')))"
          "last (split_dot (u_lower ?E (str ''example.id''))) = str ''id''"
    by (simp_all add: example_env_def ascii_lower_def)
  have fi: "find_whois_server_for_tld ?E (str ''id'') 8 start
              = Some (None, start\<lparr>calls := [(str ''id'', str ''whois.iana.org'', 43, 8)]\<rparr>)"
    using find_offline[of False pywhois_fails "str ''id''" 8 start] by (simp add: start_def)
  have r: "resolve_server Whois_cli ?E (str ''example.id'') None 8 start
             = Some (str ''whois.pandi.or.id'',
                     start\<lparr>calls := [(str ''id'', str ''whois.iana.org'', 43, 8)]\<rparr>)"
    using resolve_server_no_answer(2)[of ?E "str ''example.id''" 8 start
        "start\<lparr>calls := [(str ''id'', str ''whois.iana.org'', 43, 8)]\<rparr>"] n fi
    by (simp add: fallback_whois_cli_def)
  show ?thesis
    using n fi r by simp
qed

text \<open>
  Claim C10. In \<^verbatim>\<open>whois_cli.py\<close>, with no override and a discovery that returned no server, a
  domain whose last lowercased label is \<^verbatim>\<open>id\<close> is sent to \<^verbatim>\<open>whois.pandi.or.id\<close>, and so is a
  domain that ends in \<^verbatim>\<open>.sch.id\<close> (the test comes after the one for \<^verbatim>\<open>com\<close> and \<^verbatim>\<open>net\<close>, which
  such a domain's last label is not). \<^verbatim>\<open>who_is_CLI.py\<close> sends the same domain to
  \<^verbatim>\<open>whois.iana.org\<close>.
\<close>

theorem id_fallback_only_in_whois_cli:
  assumes "2 \<le> length (split_dot (u_lower env domain))"
      and "tld = last (split_dot (u_lower env domain))"
      and "find_whois_server_for_tld env tld timeout s = Some (None, s')"
      and "tld = str ''id'' \<or>
           (endswith domain (str ''.sch.id'') \<and> tld \<noteq> str ''com'' \<and> tld \<noteq> str ''net'')"
  shows "resolve_server Whois_cli env domain None timeout s = Some (str ''whois.pandi.or.id'', s')
         \<and> resolve_server Who_is_CLI env domain None timeout s = Some (str ''whois.iana.org'', s')"
  using resolve_server_no_answer[of env domain timeout s s'] assms
  by (auto simp del: list.map simp: fallback_who_is_CLI_def fallback_whois_cli_def)

theorem id_fallback_only_in_whois_cli_witness:
  "resolve_server Whois_cli (example_env False pywhois_fails offline_hosts) (str ''sma.sch.id'')
     None 8 start
     = Some (str ''whois.pandi.or.id'',
             start\<lparr>calls := [(str ''id'', str ''whois.iana.org'', 43, 8)]\<rparr>)
   \<and> resolve_server Who_is_CLI (example_env False pywhois_fails offline_hosts) (str ''sma.sch.id'')
        None 8 start
     = Some (str ''whois.iana.org'',
             start\<lparr>calls := [(str ''id'', str ''whois.iana.org'', 43, 8)]\<rparr>)"
proof -
  let ?E = "example_env False pywhois_fails offline_hosts"
  have n: "2 \<le> length (split_dot (u_lower ?E (str ''sma.sch.id'')))"
          "str ''id'' = last (split_dot (u_lower ?E (str ''sma.sch.id'')))"
    by (simp_all add: example_env_def ascii_lower_def)
  have fi: "find_whois_server_for_tld ?E (str ''id'') 8 start
              = Some (None, start\<lparr>calls := [(str ''id'', str ''whois.iana.org'', 43, 8)]\<rparr>)"
    using find_offline[of False pywhois_fails "str ''id''" 8 start] by (simp add: start_def)
  have c: "str ''id'' = str ''id'' \<or>
           (endswith (str ''sma.sch.id'') (str ''.sch.id'') \<and> str ''id'' \<noteq> str ''com''
            \<and> str ''id'' \<noteq> str ''net'')"
    by simp
  show ?thesis
    using id_fallback_only_in_whois_cli[OF n fi c] by simp
qed

section \<open>The primary query and the referral\<close>

text \<open>
  Claim C5. When the primary query fails, \<^verbatim>\<open>smart_whois\<close> returns at once: \<^verbatim>\<open>error\<close> holds the
  text of the exception, \<^verbatim>\<open>raw\<close> and the referral keys are absent, the state is the one the
  failed query left, so the log ends with that single query to the chosen server (no
  referral, no second attempt), and before it at most one query, the discovery, was made.
\<close>

theorem primary_failure_returns_error:
  assumes prep: "prepare f env domain0 server timeout s = Some (Inr (out0, domain, srv), s1)"
      and prim: "whois_query_server env domain srv port timeout s1 = Some (Inl e, s2)"
  shows "smart_whois f env domain0 server port timeout s
           = Some (out0\<lparr>server_used := Some srv, error := Some (exn_str e)\<rparr>, s2)
         \<and> raw (out0\<lparr>server_used := Some srv, error := Some (exn_str e)\<rparr>) = None
         \<and> raw_follow (out0\<lparr>server_used := Some srv, error := Some (exn_str e)\<rparr>) = None
         \<and> server_used_follow (out0\<lparr>server_used := Some srv, error := Some (exn_str e)\<rparr>) = None
         \<and> calls s2 = calls s1 @ [(domain, srv, port, timeout)]
         \<and> (calls s1 = calls s \<or>
            calls s1 = calls s @ [(last (split_dot (u_lower env domain)), str ''whois.iana.org'',
                                   DEFAULT_WHOIS_PORT, timeout)])"
proof -
  have "smart_whois f env domain0 server port timeout s
           = Some (out0\<lparr>server_used := Some srv, error := Some (exn_str e)\<rparr>, s2)"
    using prep prim by (rule smart_whois_after_failure)
  moreover have "calls s2 = calls s1 @ [(domain, srv, port, timeout)]"
    using whois_query_server_calls[OF prim] .
  ultimately show ?thesis
    using prepare_Inr(2)[OF prep] prepare_Inr(3)[OF prep] by simp
qed

theorem primary_failure_returns_error_witness:
  "smart_whois Who_is_CLI (example_env False pywhois_fails offline_hosts) (str ''ex.org'') None 43 8
     start
     = Some (\<lparr>query = str ''ex.org'', server_used = Some (str ''whois.iana.org''), raw = None,
              error = Some (str ''Connection refused''), parsed = None, raw_follow = None,
              server_used_follow = None, notes_list = None\<rparr>,
             start\<lparr>calls := [(str ''org'', str ''whois.iana.org'', 43, 8),
                              (str ''ex.org'', str ''whois.iana.org'', 43, 8)]\<rparr>)"
proof -
  let ?E = "example_env False pywhois_fails offline_hosts"
  let ?s1 = "start\<lparr>calls := [(str ''org'', str ''whois.iana.org'', 43, 8)]\<rparr>"
  have prep: "prepare Who_is_CLI ?E (str ''ex.org'') None 8 start
                = Some (Inr (new_result (str ''ex.org''), str ''ex.org'', str ''whois.iana.org''), ?s1)"
    by (rule prepare_offline)
  have prim: "whois_query_server ?E (str ''ex.org'') (str ''whois.iana.org'') 43 8 ?s1
                = Some (Inl (Exn (str ''Connection refused'')),
                        start\<lparr>calls := [(str ''org'', str ''whois.iana.org'', 43, 8),
                                         (str ''ex.org'', str ''whois.iana.org'', 43, 8)]\<rparr>)"
    using example_query_refused[of offline_hosts "str ''whois.iana.org''" False pywhois_fails
        "str ''ex.org''" 43 8 ?s1]
    by (simp add: offline_hosts_def start_def)
  show ?thesis
    using primary_failure_returns_error[OF prep prim] by (simp add: new_result_def)
qed

text \<open>
  Claim C6, as amended. When the referral query fails after a successful primary query, the
  failure is recorded as a note and nowhere else: the result is the dictionary as it stood
  with \<^verbatim>\<open>server_used\<close> and \<^verbatim>\<open>raw\<close> set, plus the note. \<^verbatim>\<open>raw\<close> stays, and \<^verbatim>\<open>error\<close> is what it
  was before the primary query: absent, unless the optional parser had been tried and had
  failed, whose message it then still holds.
\<close>

theorem referral_failure_is_a_note:
  assumes prep: "prepare f env domain0 server timeout s = Some (Inr (out0, domain, srv), s1)"
      and prim: "whois_query_server env domain srv port timeout s1 = Some (Inr raw_text, s2)"
      and ref: "re_search_group1 env (str ''Whois Server:'') raw_text = Some tok"
      and dif: "tok \<noteq> srv"
      and fol: "whois_query_server env domain tok port timeout s2 = Some (Inl e, s3)"
  shows "smart_whois f env domain0 server port timeout s
           = Some (out0\<lparr>server_used := Some srv, raw := Some raw_text,
                       notes_list := Some [str ''follow referral failed: '' @ exn_str e]\<rparr>, s3)
         \<and> error (out0\<lparr>server_used := Some srv, raw := Some raw_text,
                       notes_list := Some [str ''follow referral failed: '' @ exn_str e]\<rparr>)
             = error out0
         \<and> (error out0 = None \<or> HAVE_PYWHOIS env \<and> server = None)"
  using smart_whois_after_primary[OF prep prim] ref dif fol prepare_Inr(2)[OF prep]
  by (simp del: list.map)

theorem referral_failure_is_a_note_witness:
  "smart_whois Whois_cli (example_env False pywhois_fails dead_referral_hosts) (str ''ex.org'')
     (Some (str ''a.ex'')) 43 8 start
     = Some (\<lparr>query = str ''ex.org'', server_used = Some (str ''a.ex''),
              raw = Some (str ''Whois Server: b.ex''), error = None, parsed = None,
              raw_follow = None, server_used_follow = None,
              notes_list = Some [str ''follow referral failed: Connection refused'']\<rparr>,
             start\<lparr>calls := [(str ''ex.org'', str ''a.ex'', 43, 8),
                              (str ''ex.org'', str ''b.ex'', 43, 8)]\<rparr>)"
proof -
  let ?E = "example_env False pywhois_fails dead_referral_hosts"
  let ?s2 = "start\<lparr>calls := [(str ''ex.org'', str ''a.ex'', 43, 8)]\<rparr>"
  let ?s3 = "start\<lparr>calls := [(str ''ex.org'', str ''a.ex'', 43, 8),
                                (str ''ex.org'', str ''b.ex'', 43, 8)]\<rparr>"
  have prep: "prepare Whois_cli ?E (str ''ex.org'') (Some (str ''a.ex'')) 8 start
                = Some (Inr (new_result (str ''ex.org''), str ''ex.org'', str ''a.ex''), start)"
    using prepare_override[of "str ''a.ex''" Whois_cli ?E "str ''ex.org''" 8 start]
    unfolding strip_example by simp
  have prim: "whois_query_server ?E (str ''ex.org'') (str ''a.ex'') 43 8 start
                = Some (Inr (str ''Whois Server: b.ex''), ?s2)"
    using query_example[of dead_referral_hosts "str ''a.ex''" "''Whois Server: b.ex''" False
        pywhois_fails "str ''ex.org''" 43 8 start]
    by (simp add: dead_referral_hosts_def start_def)
  have ref: "re_search_group1 ?E (str ''Whois Server:'') (str ''Whois Server: b.ex'')
               = Some (str ''b.ex'')"
    by (rule search_referral_example)
  have dif: "str ''b.ex'' \<noteq> str ''a.ex''"
    by simp
  have fol: "whois_query_server ?E (str ''ex.org'') (str ''b.ex'') 43 8 ?s2
               = Some (Inl (Exn (str ''Connection refused'')), ?s3)"
    using example_query_refused[of dead_referral_hosts "str ''b.ex''" False pywhois_fails
        "str ''ex.org''" 43 8 ?s2]
    by (simp add: dead_referral_hosts_def start_def)
  show ?thesis
    using referral_failure_is_a_note[OF prep prim ref dif fol] by (simp add: new_result_def)
qed

text \<open>
  The claim as written has \<^verbatim>\<open>error\<close> not set after a failed referral. With the optional parser
  installed and failing, a root registry that names \<^verbatim>\<open>a.ex\<close>, a primary answer from \<^verbatim>\<open>a.ex\<close>
  that refers to \<^verbatim>\<open>b.ex\<close>, and no answer from \<^verbatim>\<open>b.ex\<close>, the result has \<^verbatim>\<open>raw\<close>, the note, and
  \<^verbatim>\<open>error\<close> set to the parser's failure.
\<close>

theorem referral_failure_is_a_note_counterexample:
  "smart_whois Who_is_CLI (example_env True pywhois_fails dead_referral_hosts) (str ''ex.org'')
     None 43 8 start
     = Some (\<lparr>query = str ''ex.org'', server_used = Some (str ''a.ex''),
              raw = Some (str ''Whois Server: b.ex''),
              error = Some (str ''python-whois failed: boom''), parsed = None,
              raw_follow = None, server_used_follow = None,
              notes_list = Some [str ''follow referral failed: Connection refused'']\<rparr>,
             start\<lparr>calls := [(str ''org'', str ''whois.iana.org'', 43, 8),
                              (str ''ex.org'', str ''a.ex'', 43, 8),
                              (str ''ex.org'', str ''b.ex'', 43, 8)]\<rparr>)"
proof -
  let ?E = "example_env True pywhois_fails dead_referral_hosts"
  let ?out0 = "(new_result (str ''ex.org''))\<lparr>error := Some (str ''python-whois failed: boom'')\<rparr>"
  let ?s1 = "start\<lparr>calls := [(str ''org'', str ''whois.iana.org'', 43, 8)]\<rparr>"
  let ?s2 = "start\<lparr>calls := [(str ''org'', str ''whois.iana.org'', 43, 8),
                                (str ''ex.org'', str ''a.ex'', 43, 8)]\<rparr>"
  let ?s3 = "start\<lparr>calls := [(str ''org'', str ''whois.iana.org'', 43, 8),
                                (str ''ex.org'', str ''a.ex'', 43, 8),
                                (str ''ex.org'', str ''b.ex'', 43, 8)]\<rparr>"
  have tp: "try_pywhois_who_is_CLI ?E (str ''ex.org'') None (new_result (str ''ex.org'')) start
              = (Inr ?out0, start)"
    by (simp add: try_pywhois_who_is_CLI_def example_env_def pywhois_fails_def start_def)
  have fi: "find_whois_server_for_tld ?E (str ''org'') 8 start = Some (Some (str ''a.ex''), ?s1)"
    using find_example[of dead_referral_hosts True pywhois_fails "str ''org''" 8 start]
    by (simp add: dead_referral_hosts_def start_def)
  have rs: "resolve_server_who_is_CLI ?E (str ''ex.org'') None 8 start = Some (str ''a.ex'', ?s1)"
    unfolding resolve_server_who_is_CLI_def
    using fi labels_example[of True pywhois_fails dead_referral_hosts]
    by (simp del: list.map add: Let_def)
  have prep: "prepare Who_is_CLI ?E (str ''ex.org'') None 8 start
                = Some (Inr (?out0, str ''ex.org'', str ''a.ex''), ?s1)"
    unfolding prepare_def strip_example
    using tp rs by (simp del: list.map add: Let_def)
  have prim: "whois_query_server ?E (str ''ex.org'') (str ''a.ex'') 43 8 ?s1
                = Some (Inr (str ''Whois Server: b.ex''), ?s2)"
    using query_example[of dead_referral_hosts "str ''a.ex''" "''Whois Server: b.ex''" True
        pywhois_fails "str ''ex.org''" 43 8 ?s1]
    by (simp add: dead_referral_hosts_def start_def)
  have fol: "whois_query_server ?E (str ''ex.org'') (str ''b.ex'') 43 8 ?s2
               = Some (Inl (Exn (str ''Connection refused'')), ?s3)"
    using example_query_refused[of dead_referral_hosts "str ''b.ex''" True pywhois_fails
        "str ''ex.org''" 43 8 ?s2]
    by (simp add: dead_referral_hosts_def start_def)
  have "smart_whois Who_is_CLI ?E (str ''ex.org'') None 43 8 start
          = Some (?out0\<lparr>server_used := Some (str ''a.ex''),
                         raw := Some (str ''Whois Server: b.ex''),
                         notes_list := Some [str ''follow referral failed: '' @
                                             exn_str (Exn (str ''Connection refused''))]\<rparr>, ?s3)"
    unfolding smart_whois_after_primary[OF prep prim]
      search_referral_example(1)[of True pywhois_fails dead_referral_hosts]
    using fol by simp
  then show ?thesis
    by (simp add: new_result_def)
qed

text \<open>
  Claim C1, as amended. After a successful primary query, \<^verbatim>\<open>smart_whois\<close> makes one more
  query exactly when \<^verbatim>\<open>Whois Server:\s*(\S+)\<close> matches in the raw response and the token
  captured by its first match is not the server just queried: the query goes to that token,
  for the same domain, port and timeout. If that query returns (with a text or with an
  exception), or none is due, \<^verbatim>\<open>smart_whois\<close> returns, and the queries logged are those made
  before the primary query, the primary query, and that one query, in this order, and no
  other. Only the first match is looked at, and the answer of the referral query is not
  searched.
\<close>

theorem referral_followed_once:
  assumes prep: "prepare f env domain0 server timeout s = Some (Inr (out0, domain, srv), s1)"
      and prim: "whois_query_server env domain srv port timeout s1 = Some (Inr raw_text, s2)"
      and fol: "\<forall>tok. re_search_group1 env (str ''Whois Server:'') raw_text = Some tok \<and> tok \<noteq> srv
                  \<longrightarrow> (\<exists>r s3. whois_query_server env domain tok port timeout s2 = Some (r, s3))"
  shows "\<exists>out s'. smart_whois f env domain0 server port timeout s = Some (out, s')
           \<and> calls s' = calls s1 @ [(domain, srv, port, timeout)] @
               (case re_search_group1 env (str ''Whois Server:'') raw_text of
                  None \<Rightarrow> []
                | Some tok \<Rightarrow> if tok = srv then [] else [(domain, tok, port, timeout)])"
proof (cases "re_search_group1 env (str ''Whois Server:'') raw_text")
  case None
  then show ?thesis
    using whois_query_server_calls[OF prim]
    unfolding smart_whois_after_primary[OF prep prim]
    by simp
next
  case (Some tok)
  show ?thesis
  proof (cases "tok = srv")
    case True
    then show ?thesis
      using Some whois_query_server_calls[OF prim]
      unfolding smart_whois_after_primary[OF prep prim]
      by simp
  next
    case False
    then obtain r s3 where q: "whois_query_server env domain tok port timeout s2 = Some (r, s3)"
      using fol Some by blast
    have c: "calls s3 = calls s1 @ [(domain, srv, port, timeout)] @ [(domain, tok, port, timeout)]"
      using whois_query_server_calls[OF q] whois_query_server_calls[OF prim] by simp
    show ?thesis
      using Some False q c
      unfolding smart_whois_after_primary[OF prep prim]
      by (cases r) simp_all
  qed
qed

theorem referral_followed_once_witness:
  "smart_whois Who_is_CLI (example_env False pywhois_fails referral_hosts) (str ''ex.org'') None 43 8
     start
     = Some (\<lparr>query = str ''ex.org'', server_used = Some (str ''a.ex''),
              raw = Some (str ''Whois Server: b.ex''), error = None, parsed = None,
              raw_follow = Some (str ''Whois Server: c.ex''),
              server_used_follow = Some (str ''b.ex''), notes_list = None\<rparr>,
             start\<lparr>calls := [(str ''org'', str ''whois.iana.org'', 43, 8),
                              (str ''ex.org'', str ''a.ex'', 43, 8),
                              (str ''ex.org'', str ''b.ex'', 43, 8)]\<rparr>)
   \<and> (\<exists>out s'. smart_whois Who_is_CLI (example_env False pywhois_fails referral_hosts)
                   (str ''ex.org'') None 43 8 start = Some (out, s')
         \<and> calls s' = [(str ''org'', str ''whois.iana.org'', 43, 8)]
                        @ [(str ''ex.org'', str ''a.ex'', 43, 8)]
                        @ [(str ''ex.org'', str ''b.ex'', 43, 8)])"
proof -
  let ?E = "example_env False pywhois_fails referral_hosts"
  let ?s1 = "start\<lparr>calls := [(str ''org'', str ''whois.iana.org'', 43, 8)]\<rparr>"
  let ?s2 = "start\<lparr>calls := [(str ''org'', str ''whois.iana.org'', 43, 8),
                                (str ''ex.org'', str ''a.ex'', 43, 8)]\<rparr>"
  let ?s3 = "start\<lparr>calls := [(str ''org'', str ''whois.iana.org'', 43, 8),
                                (str ''ex.org'', str ''a.ex'', 43, 8),
                                (str ''ex.org'', str ''b.ex'', 43, 8)]\<rparr>"
  have prep: "prepare Who_is_CLI ?E (str ''ex.org'') None 8 start
                = Some (Inr (new_result (str ''ex.org''), str ''ex.org'', str ''a.ex''), ?s1)"
    by (rule prepare_referral_example) (simp add: referral_hosts_def)
  have prim: "whois_query_server ?E (str ''ex.org'') (str ''a.ex'') 43 8 ?s1
                = Some (Inr (str ''Whois Server: b.ex''), ?s2)"
    using query_example[of referral_hosts "str ''a.ex''" "''Whois Server: b.ex''" False
        pywhois_fails "str ''ex.org''" 43 8 ?s1]
    by (simp add: referral_hosts_def start_def)
  have sr: "re_search_group1 ?E (str ''Whois Server:'') (str ''Whois Server: b.ex'')
              = Some (str ''b.ex'')"
    by (rule search_referral_example)
  have q: "whois_query_server ?E (str ''ex.org'') (str ''b.ex'') 43 8 ?s2
             = Some (Inr (str ''Whois Server: c.ex''), ?s3)"
    using query_example[of referral_hosts "str ''b.ex''" "''Whois Server: c.ex''" False
        pywhois_fails "str ''ex.org''" 43 8 ?s2]
    by (simp add: referral_hosts_def start_def)
  have fol: "\<forall>tok. re_search_group1 ?E (str ''Whois Server:'') (str ''Whois Server: b.ex'')
                     = Some tok \<and> tok \<noteq> str ''a.ex''
               \<longrightarrow> (\<exists>r s3. whois_query_server ?E (str ''ex.org'') tok 43 8 ?s2 = Some (r, s3))"
    unfolding sr using q by blast
  have "\<exists>out s'. smart_whois Who_is_CLI ?E (str ''ex.org'') None 43 8 start = Some (out, s')
           \<and> calls s' = calls ?s1 @ [(str ''ex.org'', str ''a.ex'', 43, 8)] @
               (case re_search_group1 ?E (str ''Whois Server:'') (str ''Whois Server: b.ex'') of
                  None \<Rightarrow> []
                | Some tok \<Rightarrow>
                    if tok = str ''a.ex'' then [] else [(str ''ex.org'', tok, 43, 8)])"
    by (rule referral_followed_once[OF prep prim fol])
  then have "\<exists>out s'. smart_whois Who_is_CLI ?E (str ''ex.org'') None 43 8 start = Some (out, s')
         \<and> calls s' = [(str ''org'', str ''whois.iana.org'', 43, 8)]
                        @ [(str ''ex.org'', str ''a.ex'', 43, 8)]
                        @ [(str ''ex.org'', str ''b.ex'', 43, 8)]"
    unfolding sr by simp
  then show ?thesis
    using smart_whois_referral_example[of Who_is_CLI pywhois_fails] by blast
qed

text \<open>
  The claim as written asks for a referral query whenever some line of the raw response
  matches with a token other than the server just queried. \<^verbatim>\<open>a.ex\<close>, queried by override,
  answers with two lines: the first names \<^verbatim>\<open>a.ex\<close> itself, the second matches the pattern
  with the token \<^verbatim>\<open>b.ex\<close>. No second query is made.
\<close>

theorem referral_followed_once_counterexample:
  "str ''Whois Server: a.ex\<newline>Whois Server: b.ex''
     = str ''Whois Server: a.ex'' @ [0x0A] @ str ''Whois Server: b.ex''
   \<and> match_here (example_env False pywhois_fails repeated_hosts) (str ''Whois Server:'')
        (str ''Whois Server: b.ex'') = Some (str ''b.ex'')
   \<and> str ''b.ex'' \<noteq> str ''a.ex''
   \<and> smart_whois Who_is_CLI (example_env False pywhois_fails repeated_hosts) (str ''ex.org'')
        (Some (str ''a.ex'')) 43 8 start
       = Some (\<lparr>query = str ''ex.org'', server_used = Some (str ''a.ex''),
                raw = Some (str ''Whois Server: a.ex\<newline>Whois Server: b.ex''), error = None,
                parsed = None, raw_follow = None, server_used_follow = None,
                notes_list = None\<rparr>,
               start\<lparr>calls := [(str ''ex.org'', str ''a.ex'', 43, 8)]\<rparr>)"
proof -
  let ?E = "example_env False pywhois_fails repeated_hosts"
  let ?s2 = "start\<lparr>calls := [(str ''ex.org'', str ''a.ex'', 43, 8)]\<rparr>"
  have prep: "prepare Who_is_CLI ?E (str ''ex.org'') (Some (str ''a.ex'')) 8 start
                = Some (Inr (new_result (str ''ex.org''), str ''ex.org'', str ''a.ex''), start)"
    using prepare_override[of "str ''a.ex''" Who_is_CLI ?E "str ''ex.org''" 8 start]
    unfolding strip_example by simp
  have prim: "whois_query_server ?E (str ''ex.org'') (str ''a.ex'') 43 8 start
                = Some (Inr (str ''Whois Server: a.ex\<newline>Whois Server: b.ex''), ?s2)"
    using query_example[of repeated_hosts "str ''a.ex''"
        "''Whois Server: a.ex\<newline>Whois Server: b.ex''" False pywhois_fails "str ''ex.org''" 43 8
        start]
    by (simp add: repeated_hosts_def start_def)
  have ret: "smart_whois Who_is_CLI ?E (str ''ex.org'') (Some (str ''a.ex'')) 43 8 start
          = Some ((new_result (str ''ex.org''))\<lparr>server_used := Some (str ''a.ex''),
                    raw := Some (str ''Whois Server: a.ex\<newline>Whois Server: b.ex'')\<rparr>, ?s2)"
    unfolding smart_whois_after_primary[OF prep prim]
      search_referral_example(3)[of False pywhois_fails repeated_hosts]
    by simp
  have m: "match_here ?E (str ''Whois Server:'') (str ''Whois Server: b.ex'') = Some (str ''b.ex'')"
    by (simp add: match_here_def example_env_def ascii_lower_def py_isspace_def)
  show ?thesis
    using ret m by (simp add: new_result_def)
qed

section \<open>What the result holds\<close>

text \<open>
  Claim C4, as amended. The result \<^verbatim>\<open>smart_whois\<close> returns has \<^verbatim>\<open>raw\<close> or \<^verbatim>\<open>error\<close>, with one
  exception: in \<^verbatim>\<open>whois_cli.py\<close>, when the optional parser answered, the result has neither
  (it has \<^verbatim>\<open>parsed\<close>, \<^verbatim>\<open>server_used\<close> is \<^verbatim>\<open>python-whois\<close>, and no query was made). When the
  primary query fails, \<^verbatim>\<open>raw\<close> is absent and \<^verbatim>\<open>error\<close> is set.
\<close>

theorem raw_or_error_present:
  assumes ret: "smart_whois f env domain0 server port timeout s = Some (out, s')"
  shows "(raw out \<noteq> None \<or> error out \<noteq> None \<or>
          (f = Whois_cli \<and> HAVE_PYWHOIS env \<and> server = None \<and> parsed out \<noteq> None
           \<and> server_used out = Some (str ''python-whois'') \<and> calls s' = calls s))
         \<and> (prepare f env domain0 server timeout s = Some (Inr (out0, domain, srv), s1)
            \<and> whois_query_server env domain srv port timeout s1 = Some (Inl e, s2)
            \<longrightarrow> raw out = None \<and> error out = Some (exn_str e))"
proof -
  have a: "raw out \<noteq> None \<or> error out \<noteq> None \<or>
          (f = Whois_cli \<and> HAVE_PYWHOIS env \<and> server = None \<and> parsed out \<noteq> None
           \<and> server_used out = Some (str ''python-whois'') \<and> calls s' = calls s)"
  proof (cases "prepare f env domain0 server timeout s")
    case None
    then show ?thesis using ret by (simp add: smart_whois_def)
  next
    case (Some r)
    obtain x sa where r: "r = (x, sa)" by (cases r)
    show ?thesis
    proof (cases x)
      case (Inl o1)
      then have "o1 = out \<and> sa = s'"
        using ret Some r by (simp add: smart_whois_def)
      then show ?thesis
        using prepare_Inl[of f env domain0 server timeout s out s'] Some r Inl by auto
    next
      case (Inr y)
      obtain o0 d sv where y: "y = (o0, d, sv)" by (cases y)
      have "query_and_follow env o0 d sv port timeout sa = Some (out, s')"
        using ret Some r Inr y by (simp add: smart_whois_def)
      then show ?thesis
        using query_and_follow_raw_or_error by blast
    qed
  qed
  have b: "raw out = None \<and> error out = Some (exn_str e)"
    if "prepare f env domain0 server timeout s = Some (Inr (out0, domain, srv), s1)"
      and "whois_query_server env domain srv port timeout s1 = Some (Inl e, s2)"
    using smart_whois_after_failure[OF that] ret prepare_Inr(2)[OF that(1)] by auto
  show ?thesis
    using a b by blast
qed

theorem raw_or_error_present_witness:
  "smart_whois Whois_cli (example_env False pywhois_fails offline_hosts) (str ''ex.org'') None 43 8
     start
     = Some (\<lparr>query = str ''ex.org'', server_used = Some (str ''whois.iana.org''), raw = None,
              error = Some (str ''Connection refused''), parsed = None, raw_follow = None,
              server_used_follow = None, notes_list = None\<rparr>,
             start\<lparr>calls := [(str ''org'', str ''whois.iana.org'', 43, 8),
                              (str ''ex.org'', str ''whois.iana.org'', 43, 8)]\<rparr>)
   \<and> error \<lparr>query = str ''ex.org'', server_used = Some (str ''whois.iana.org''), raw = None,
              error = Some (str ''Connection refused''), parsed = None, raw_follow = None,
              server_used_follow = None, notes_list = None\<rparr>
       = Some (exn_str (Exn (str ''Connection refused'')))"
proof -
  let ?E = "example_env False pywhois_fails offline_hosts"
  let ?s1 = "start\<lparr>calls := [(str ''org'', str ''whois.iana.org'', 43, 8)]\<rparr>"
  let ?s2 = "start\<lparr>calls := [(str ''org'', str ''whois.iana.org'', 43, 8),
                                (str ''ex.org'', str ''whois.iana.org'', 43, 8)]\<rparr>"
  let ?out = "\<lparr>query = str ''ex.org'', server_used = Some (str ''whois.iana.org''), raw = None,
              error = Some (str ''Connection refused''), parsed = None, raw_follow = None,
              server_used_follow = None, notes_list = None\<rparr>"
  have prep: "prepare Whois_cli ?E (str ''ex.org'') None 8 start
                = Some (Inr (new_result (str ''ex.org''), str ''ex.org'', str ''whois.iana.org''), ?s1)"
    by (rule prepare_offline)
  have prim: "whois_query_server ?E (str ''ex.org'') (str ''whois.iana.org'') 43 8 ?s1
                = Some (Inl (Exn (str ''Connection refused'')), ?s2)"
    using example_query_refused[of offline_hosts "str ''whois.iana.org''" False pywhois_fails
        "str ''ex.org''" 43 8 ?s1]
    by (simp add: offline_hosts_def start_def)
  have ret: "smart_whois Whois_cli ?E (str ''ex.org'') None 43 8 start = Some (?out, ?s2)"
    using smart_whois_after_failure[OF prep prim] by (simp add: new_result_def)
  show ?thesis
    using raw_or_error_present[OF ret, of "new_result (str ''ex.org'')" "str ''ex.org''"
        "str ''whois.iana.org''" ?s1 "Exn (str ''Connection refused'')" ?s2] prep prim ret
    by simp
qed

text \<open>
  The claim as written never has both absent. In \<^verbatim>\<open>whois_cli.py\<close>, with the optional parser
  installed and answering, the result has neither \<^verbatim>\<open>raw\<close> nor \<^verbatim>\<open>error\<close>.
\<close>

theorem raw_or_error_present_counterexample:
  "smart_whois Whois_cli (example_env True pywhois_answers offline_hosts) (str ''ex.org'') None 43 8
     start
     = Some (\<lparr>query = str ''ex.org'', server_used = Some (str ''python-whois''), raw = None,
              error = None, parsed = Some [(str ''domain_name'', str ''ex.org'')],
              raw_follow = None, server_used_follow = None, notes_list = None\<rparr>, start)"
proof -
  let ?E = "example_env True pywhois_answers offline_hosts"
  have "prepare Whois_cli ?E (str ''ex.org'') None 8 start
          = Some (Inl ((new_result (str ''ex.org''))\<lparr>server_used := Some (str ''python-whois''),
                         parsed := Some [(str ''domain_name'', str ''ex.org'')]\<rparr>), start)"
    unfolding prepare_def strip_example
    by (simp add: try_pywhois_whois_cli_def example_env_def pywhois_answers_def start_def Let_def)
  then show ?thesis
    by (simp add: smart_whois_def new_result_def)
qed

section \<open>The flag \<^verbatim>\<open>--no-referral\<close>\<close>

text \<open>In neither file does \<^verbatim>\<open>--no-referral\<close> change the queries made: the final state is the same.\<close>

lemma main_results_state_who_is_CLI:
  "map_option snd (main_results_who_is_CLI env (a\<lparr>arg_no_referral := x\<rparr>) ds rs s)
     = map_option snd (main_results_who_is_CLI env (a\<lparr>arg_no_referral := y\<rparr>) ds rs' s)"
proof (induction ds arbitrary: rs rs' s)
  case Nil
  show ?case by simp
next
  case (Cons d ds)
  show ?case
  proof (cases "smart_whois Who_is_CLI env d (arg_server a) (arg_port a) (arg_timeout a) s")
    case None
    then show ?thesis by simp
  next
    case (Some r)
    obtain res s1 where r: "r = (res, s1)" by (cases r)
    show ?thesis
      using Some r Cons.IH[of _ s1] by simp
  qed
qed

lemma main_results_state_whois_cli:
  "map_option snd (main_results_whois_cli env (a\<lparr>arg_no_referral := x\<rparr>) ds rs s)
     = map_option snd (main_results_whois_cli env (a\<lparr>arg_no_referral := y\<rparr>) ds rs' s)"
proof (induction ds arbitrary: rs rs' s)
  case Nil
  show ?case by simp
next
  case (Cons d ds)
  show ?case
  proof (cases "smart_whois Whois_cli env d (arg_server a) (arg_port a) (arg_timeout a) s")
    case None
    then show ?thesis by simp
  next
    case (Some r)
    obtain res s1 where r: "r = (res, s1)" by (cases r)
    show ?thesis
      using Some r Cons.IH[of _ s1] by simp
  qed
qed

text \<open>In \<^verbatim>\<open>who_is_CLI.py\<close> a dictionary collected under \<^verbatim>\<open>--no-referral\<close> has no referral key.\<close>

lemma main_results_who_is_CLI_strips:
  assumes "main_results_who_is_CLI env a ds rs s = Some (results, s')" and "arg_no_referral a"
  shows "take (length rs) results = rs \<and>
         (\<forall>r\<in>set (drop (length rs) results). raw_follow r = None \<and> server_used_follow r = None)"
  using assms(1)
proof (induction ds arbitrary: rs s)
  case Nil
  then show ?case by simp
next
  case (Cons d ds)
  obtain res s1 where sw:
    "smart_whois Who_is_CLI env d (arg_server a) (arg_port a) (arg_timeout a) s = Some (res, s1)"
    using Cons.prems by (auto split: option.splits)
  show ?case
  proof (cases "arg_quiet a \<and> arg_output a = Text")
    case True
    then have "main_results_who_is_CLI env a ds rs s1 = Some (results, s')"
      using Cons.prems sw by simp
    then show ?thesis by (rule Cons.IH)
  next
    case False
    let ?r = "res\<lparr>raw_follow := None, server_used_follow := None\<rparr>"
    have "main_results_who_is_CLI env a ds (rs @ [?r]) s1 = Some (results, s')"
      using Cons.prems sw False assms(2) by auto
    from Cons.IH[OF this]
    have t: "take (Suc (length rs)) results = rs @ [?r]"
      and d: "\<forall>r\<in>set (drop (Suc (length rs)) results).
                raw_follow r = None \<and> server_used_follow r = None"
      by simp_all
    define rest where "rest = drop (Suc (length rs)) results"
    have "take (Suc (length rs)) results @ rest = results"
      unfolding rest_def by (rule append_take_drop_id)
    then have e: "results = rs @ ?r # rest"
      unfolding t by simp
    have t1: "take (length rs) results = rs"
      by (subst e) simp
    have "drop (length rs) results = ?r # rest"
      by (subst e) simp
    then show ?thesis
      using t1 d by (simp add: rest_def)
  qed
qed

text \<open>
  Claim C9. \<^verbatim>\<open>--no-referral\<close> is to leave the referral query in place and to remove
  \<^verbatim>\<open>raw_follow\<close> and \<^verbatim>\<open>server_used_follow\<close> from what is collected and printed. Both files make
  the same three queries for \<^verbatim>\<open>ex.org\<close> under the flag; \<^verbatim>\<open>who_is_CLI.py\<close> collects the
  dictionary without the two keys, \<^verbatim>\<open>whois_cli.py\<close>, whose \<^verbatim>\<open>main\<close> never reads the flag,
  collects it with both.
\<close>

theorem no_referral_unread_in_whois_cli:
  "main_results Whois_cli (example_env False pywhois_fails referral_hosts)
     \<lparr>arg_server = None, arg_port = 43, arg_timeout = 8, arg_output = Json, arg_quiet = False,
      arg_no_referral = True\<rparr> [str ''ex.org''] [] start
     = Some ([\<lparr>query = str ''ex.org'', server_used = Some (str ''a.ex''),
               raw = Some (str ''Whois Server: b.ex''), error = None, parsed = None,
               raw_follow = Some (str ''Whois Server: c.ex''),
               server_used_follow = Some (str ''b.ex''), notes_list = None\<rparr>],
             start\<lparr>calls := [(str ''org'', str ''whois.iana.org'', 43, 8),
                              (str ''ex.org'', str ''a.ex'', 43, 8),
                              (str ''ex.org'', str ''b.ex'', 43, 8)]\<rparr>)
   \<and> main_results Who_is_CLI (example_env False pywhois_fails referral_hosts)
       \<lparr>arg_server = None, arg_port = 43, arg_timeout = 8, arg_output = Json, arg_quiet = False,
        arg_no_referral = True\<rparr> [str ''ex.org''] [] start
     = Some ([\<lparr>query = str ''ex.org'', server_used = Some (str ''a.ex''),
               raw = Some (str ''Whois Server: b.ex''), error = None, parsed = None,
               raw_follow = None, server_used_follow = None, notes_list = None\<rparr>],
             start\<lparr>calls := [(str ''org'', str ''whois.iana.org'', 43, 8),
                              (str ''ex.org'', str ''a.ex'', 43, 8),
                              (str ''ex.org'', str ''b.ex'', 43, 8)]\<rparr>)"
  using smart_whois_referral_example[of Whois_cli pywhois_fails]
    smart_whois_referral_example[of Who_is_CLI pywhois_fails]
  by simp

end
